theory Spec2Isabelle
  imports Complex_Main "HOL-Library.List_Lexorder"
begin

section \<open>Python values\<close>

text \<open>
  A Python \<open>str\<close> is a sequence of Unicode code points, so a string is modelled as a list of
  natural numbers (the code points); the literal \<open>'NA'\<close> is \<open>map of_char ''NA''\<close>.
  Exceptions are values of the type \<open>error\<close>; a computation that may raise returns
  \<open>error + 'a\<close> with \<open>Inl\<close> for the exception.
\<close>

type_synonym pystr = "nat list"

abbreviation (input) py :: "string \<Rightarrow> pystr" where
  "py s \<equiv> map of_char s"

datatype error =
    KeyError | ValueError | IndexError | TypeError | AttributeError
  | StatisticsError | EOFError

subsection \<open>The string methods the program calls\<close>

text \<open>
  \<open>str.isspace\<close> holds for exactly these code points (the whitespace table of CPython);
  \<open>str.strip()\<close> removes them from both ends.
\<close>

definition isspace :: "nat \<Rightarrow> bool" where
  "isspace c \<longleftrightarrow>
     (9 \<le> c \<and> c \<le> 13) \<or> (28 \<le> c \<and> c \<le> 32) \<or> c = 133 \<or> c = 160 \<or> c = 5760
     \<or> (8192 \<le> c \<and> c \<le> 8202) \<or> c = 8232 \<or> c = 8233 \<or> c = 8239 \<or> c = 8287
     \<or> c = 12288"

definition strip :: "pystr \<Rightarrow> pystr" where
  "strip s = rev (dropWhile isspace (rev (dropWhile isspace s)))"

text \<open>
  Case mapping of one code point, as a list because a mapping may yield several code points.
  The tables are exact for ASCII (code points below 128) and for the two code points
  U+0149 and U+02BC; other code points with a case mapping are outside the model and
  are left unchanged here. U+0149 (LATIN SMALL LETTER N PRECEDED BY APOSTROPHE) has the
  title-case mapping U+02BC U+004E and is its own lower case.
\<close>

definition lower_cp :: "nat \<Rightarrow> pystr" where
  "lower_cp c = (if 65 \<le> c \<and> c \<le> 90 then [c + 32] else [c])"

definition title_cp :: "nat \<Rightarrow> pystr" where
  "title_cp c =
     (if 97 \<le> c \<and> c \<le> 122 then [c - 32]
      else if c = 329 then [700, 78]
      else [c])"

definition lower :: "pystr \<Rightarrow> pystr" where
  "lower s = concat (map lower_cp s)"

text \<open>\<open>str.capitalize()\<close>: the first character in title case, the rest in lower case.\<close>

fun capitalize :: "pystr \<Rightarrow> pystr" where
  "capitalize [] = []"
| "capitalize (c # cs) = title_cp c @ lower cs"

text \<open>
  \<open>s.split(sep)\<close> for a separator of one character: the pieces between the occurrences of
  \<open>sep\<close>; the result is never the empty list (\<open>''.split('@') = ['']\<close>).
\<close>

fun split :: "nat \<Rightarrow> pystr \<Rightarrow> pystr list" where
  "split sep [] = [[]]"
| "split sep (c # cs) =
     (if c = sep then [] # split sep cs
      else (case split sep cs of [] \<Rightarrow> [[c]] | t # ts \<Rightarrow> (c # t) # ts))"

text \<open>\<open>sep.join(xs)\<close> for a list of strings.\<close>

fun join :: "pystr \<Rightarrow> pystr list \<Rightarrow> pystr" where
  "join sep [] = []"
| "join sep [x] = x"
| "join sep (x # y # ys) = x @ sep @ join sep (y # ys)"

text \<open>\<open>xs[0]\<close> raises \<open>IndexError\<close> on the empty list.\<close>

definition index0 :: "'a list \<Rightarrow> error + 'a" where
  "index0 xs = (case xs of [] \<Rightarrow> Inl IndexError | x # _ \<Rightarrow> Inr x)"

subsection \<open>Cells, tables and the rating lexicon\<close>

text \<open>
  A cell of a table is a string, a number or the missing marker \<open>nan\<close> (a blank cell of the
  spreadsheet). Numbers, \<open>int\<close> and \<open>float\<close> alike, are idealised as reals.
\<close>

datatype cell = Str pystr | Num real | NaN

fun is_str :: "cell \<Rightarrow> bool" where
  "is_str (Str s) = True"
| "is_str _ = False"

fun is_num :: "cell \<Rightarrow> bool" where
  "is_num (Num x) = True"
| "is_num _ = False"

text \<open>
  \<^verbatim>\<open>NA_LIST = [np.nan, 'NA', 'na', 'N/A', 'n/a', 'N/a', 'nan', '']\<close>

  \<open>x in NA_LIST\<close> is \<open>x \<in> set NA_LIST\<close>; a blank cell is taken to be the object
  \<open>np.nan\<close> itself, which \<open>in\<close> finds by identity.
\<close>

definition NA_LIST :: "cell list" where
  "NA_LIST = [NaN, Str (py ''NA''), Str (py ''na''), Str (py ''N/A''), Str (py ''n/a''),
              Str (py ''N/a''), Str (py ''nan''), Str []]"

definition GB_SID :: pystr where
  "GB_SID = py ''SIS Login ID''"

text \<open>
  A \<open>pandas.DataFrame\<close>: the column labels and the rows, each row holding one cell per
  column. Rows are addressed by position (the row labels of the program's tables are
  \<open>0, 1, 2, \<dots>\<close>), a column by the first position of its label: the model is for tables
  whose column labels are distinct.
\<close>

record frame =
  columns :: "cell list"
  rows :: "cell list list"

text \<open>
  The rating lexicon \<open>map_points\<close>, a \<open>dict\<close> from rating labels to points; the points,
  the column \<open>Points\<close> of the sheet \<open>PointMap\<close>, are numbers.
\<close>

type_synonym lexicon = "cell \<Rightarrow> real option"

fun col_index :: "cell list \<Rightarrow> cell \<Rightarrow> nat option" where
  "col_index [] l = None"
| "col_index (c # cs) l = (if c = l then Some 0 else map_option Suc (col_index cs l))"

text \<open>\<open>df[label]\<close>: the cells of one column; \<open>KeyError\<close> when there is no such column.\<close>

definition get_col :: "frame \<Rightarrow> cell \<Rightarrow> error + cell list" where
  "get_col df l =
     (case col_index (columns df) l of
        None \<Rightarrow> Inl KeyError
      | Some j \<Rightarrow> Inr (map (\<lambda>r. r ! j) (rows df)))"

fun col_indices :: "cell list \<Rightarrow> cell list \<Rightarrow> error + nat list" where
  "col_indices cs [] = Inr []"
| "col_indices cs (l # ls) =
     (case col_index cs l of
        None \<Rightarrow> Inl KeyError
      | Some j \<Rightarrow> (case col_indices cs ls of Inl e \<Rightarrow> Inl e | Inr js \<Rightarrow> Inr (j # js)))"

text \<open>\<open>df[labels]\<close> and \<open>df.loc[:, labels]\<close>: a new table of the named columns.\<close>

definition select_cols :: "frame \<Rightarrow> cell list \<Rightarrow> error + frame" where
  "select_cols df ls =
     (case col_indices (columns df) ls of
        Inl e \<Rightarrow> Inl e
      | Inr js \<Rightarrow> Inr \<lparr>columns = ls, rows = map (\<lambda>r. map (\<lambda>j. r ! j) js) (rows df)\<rparr>)"

text \<open>
  \<open>df[label] = value\<close> for a scalar: every cell of the column becomes the value; a label
  the table does not have is appended as a new column.
\<close>

definition set_col_const :: "frame \<Rightarrow> cell \<Rightarrow> cell \<Rightarrow> frame" where
  "set_col_const df l v =
     (case col_index (columns df) l of
        Some j \<Rightarrow> df\<lparr>rows := map (\<lambda>r. r[j := v]) (rows df)\<rparr>
      | None \<Rightarrow> \<lparr>columns = columns df @ [l], rows = map (\<lambda>r. r @ [v]) (rows df)\<rparr>)"

text \<open>\<open>df[label] = series\<close>: the column takes the given cells, row by row.\<close>

definition set_col :: "frame \<Rightarrow> cell \<Rightarrow> cell list \<Rightarrow> frame" where
  "set_col df l vs =
     (case col_index (columns df) l of
        Some j \<Rightarrow> df\<lparr>rows := map (\<lambda>(r, v). r[j := v]) (zip (rows df) vs)\<rparr>
      | None \<Rightarrow> \<lparr>columns = columns df @ [l], rows = map (\<lambda>(r, v). r @ [v]) (zip (rows df) vs)\<rparr>)"

text \<open>
  \<open>df.loc[0, label] = value\<close> on a table that may still have no row and may lack the column:
  the column is appended when missing, and row \<open>0\<close> is created, blank, when missing.
\<close>

definition loc_set0 :: "frame \<Rightarrow> cell \<Rightarrow> cell \<Rightarrow> frame" where
  "loc_set0 df l v =
     (let cs = (if l \<in> set (columns df) then columns df else columns df @ [l]);
          rs = (if l \<in> set (columns df) then rows df else map (\<lambda>r. r @ [NaN]) (rows df));
          j = the (col_index cs l)
      in case rs of
           [] \<Rightarrow> \<lparr>columns = cs, rows = [(replicate (length cs) NaN)[j := v]]\<rparr>
         | r # rs' \<Rightarrow> \<lparr>columns = cs, rows = r[j := v] # rs'\<rparr>)"

text \<open>\<open>df.loc[0, label]\<close>: \<open>KeyError\<close> without the column or without a first row.\<close>

definition loc_get0 :: "frame \<Rightarrow> cell \<Rightarrow> error + cell" where
  "loc_get0 df l =
     (case col_index (columns df) l of
        None \<Rightarrow> Inl KeyError
      | Some j \<Rightarrow> (case rows df of [] \<Rightarrow> Inl KeyError | r # _ \<Rightarrow> Inr (r ! j)))"

subsection \<open>The numeric functions the program calls\<close>

text \<open>
  \<open>statistics.mean\<close> and \<open>statistics.stdev\<close> (the sample standard deviation, divisor
  \<open>n - 1\<close>); both raise \<open>StatisticsError\<close> on too few data points. \<open>round(x, 2)\<close> rounds to
  two decimal places, a tie to the even neighbour. Floating point is idealised: the
  functions are those of the reals.
\<close>

definition mean :: "real list \<Rightarrow> error + real" where
  "mean xs = (if xs = [] then Inl StatisticsError else Inr (sum_list xs / real (length xs)))"

definition stdev :: "real list \<Rightarrow> error + real" where
  "stdev xs =
     (if length xs < 2 then Inl StatisticsError
      else let m = sum_list xs / real (length xs)
           in Inr (sqrt (sum_list (map (\<lambda>x. (x - m)\<^sup>2) xs) / real (length xs - 1))))"

definition round_half_even :: "real \<Rightarrow> int" where
  "round_half_even y =
     (let f = \<lfloor>y\<rfloor>; d = y - of_int f
      in if d < 1 / 2 then f else if 1 / 2 < d then f + 1 else if even f then f else f + 1)"

definition round2 :: "real \<Rightarrow> real" where
  "round2 x = of_int (round_half_even (x * 100)) / 100"

text \<open>
  The numbers of a column of converted ratings, as \<open>mean\<close> and \<open>stdev\<close> take them.
  \<open>convert_ratings\<close> leaves only numbers in its table, so the last case is not reached by
  the program; a string there would be a \<open>TypeError\<close>.
\<close>

fun nums :: "cell list \<Rightarrow> error + real list" where
  "nums [] = Inr []"
| "nums (Num x # cs) = (case nums cs of Inl e \<Rightarrow> Inl e | Inr xs \<Rightarrow> Inr (x # xs))"
| "nums (_ # cs) = Inl TypeError"

text \<open>\<open>sep.join(cells)\<close>: \<open>TypeError\<close> when a cell is not a string.\<close>

fun strs :: "cell list \<Rightarrow> error + pystr list" where
  "strs [] = Inr []"
| "strs (Str x # cs) = (case strs cs of Inl e \<Rightarrow> Inl e | Inr xs \<Rightarrow> Inr (x # xs))"
| "strs (_ # cs) = Inl TypeError"

section \<open>Miscellaneous functions\<close>

text \<open>
  \<^verbatim>\<open>student_id = email.split('@')[0].lower()\<close>
\<close>

definition split_email :: "pystr \<Rightarrow> error + pystr" where
  "split_email email =
     (case index0 (split 64 email) of
        Inl e \<Rightarrow> Inl e
      | Inr x \<Rightarrow> Inr (lower x))"

text \<open>
  \<^verbatim>\<open>name = name.strip()
  name = ' '.join([name.capitalize() for name in name.split(' ')])\<close>
\<close>

definition fix_name :: "pystr \<Rightarrow> pystr" where
  "fix_name name = join [32] (map capitalize (split 32 (strip name)))"

text \<open>
  \<^verbatim>\<open>for col in cols:
      dataframe[col]=''\<close>
\<close>

definition add_empty_cols :: "frame \<Rightarrow> cell list \<Rightarrow> frame" where
  "add_empty_cols dataframe cols = fold (\<lambda>col df. set_col_const df col (Str [])) cols dataframe"

text \<open>
  \<^verbatim>\<open>if p_or_s == 'p':
      col_list = [add_str + ': ' + col for col in col_list]
  elif p_or_s == 's':
      col_list = [col + ' (' + add_str + ')' for col in col_list]\<close>
\<close>

definition add_prefix_suffix :: "pystr list \<Rightarrow> pystr \<Rightarrow> pystr \<Rightarrow> pystr list" where
  "add_prefix_suffix col_list add_str p_or_s =
     (if p_or_s = py ''p'' then map (\<lambda>col. add_str @ py '': '' @ col) col_list
      else if p_or_s = py ''s'' then map (\<lambda>col. col @ py '' ('' @ add_str @ py '')'') col_list
      else col_list)"

subsection \<open>The survey map\<close>

text \<open>
  One row of the \<open>ResponseMap\<close> sheet per survey question: the role (\<open>student\<close>), the
  category, the output label (\<open>newhead\<close>, blank for some questions) and the column of the
  response table. The roles and categories are text: \<open>str.contains\<close> on a blank cell makes
  the row selection raise, so a map with a blank role does not get past \<open>find_columns\<close>.
\<close>

record schema_entry =
  student :: pystr
  category :: pystr
  newhead :: "pystr option"
  survey_column :: pystr

type_synonym survey_map = "schema_entry list"

datatype map_col = Newhead | Survey_column

fun starts_with :: "pystr \<Rightarrow> pystr \<Rightarrow> bool" where
  "starts_with s [] = True"
| "starts_with [] (p # ps) = False"
| "starts_with (c # cs) (p # ps) = (c = p \<and> starts_with cs ps)"

text \<open>
  \<open>Series.str.contains(pat)\<close> for the patterns the program passes (\<open>'self'\<close>, \<open>'peer'\<close>,
  \<open>'rating'\<close>, a role of the map, \<dots>): the pattern occurs in the string. Patterns are taken
  literally; a role with regular-expression metacharacters is outside the model.
\<close>

fun contains :: "pystr \<Rightarrow> pystr \<Rightarrow> bool" where
  "contains [] pat = (pat = [])"
| "contains (c # cs) pat = (starts_with (c # cs) pat \<or> contains cs pat)"

text \<open>
  \<^verbatim>\<open>peer_list = list(set(list(survey_map[
      survey_map['student'].str.contains(r'peer')].loc[:,'student'])))
  peer_list.sort()\<close>
\<close>

definition unique_peers :: "survey_map \<Rightarrow> pystr list" where
  "unique_peers sm = sort (remdups (map student (filter (\<lambda>e. contains (student e) (py ''peer'')) sm)))"

definition first_peer :: "survey_map \<Rightarrow> error + pystr" where
  "first_peer sm = index0 (unique_peers sm)"

definition map_col_value :: "map_col \<Rightarrow> schema_entry \<Rightarrow> pystr option" where
  "map_col_value mc e = (case mc of Newhead \<Rightarrow> newhead e | Survey_column \<Rightarrow> Some (survey_column e))"

text \<open>
  \<^verbatim>\<open>if category != 'any':
      cols = list(survey_map[
          (survey_map.student.str.contains(student))
          & (survey_map.category.str.contains(category))][map_col])
  else:
      cols = list(survey_map[
          (survey_map.student.str.contains(student))][map_col])
  cols = [col for col in cols if str(col) != 'nan']
  if prefix:
      cols = add_prefix_suffix(cols, prefix, 'p')
  elif suffix:
      cols = add_prefix_suffix(cols, suffix, 's')\<close>

  The defaults \<open>prefix=False\<close>, \<open>suffix=False\<close> are \<open>None\<close>; an empty string is false as well.
\<close>

definition find_columns ::
  "survey_map \<Rightarrow> pystr \<Rightarrow> pystr \<Rightarrow> map_col \<Rightarrow> pystr option \<Rightarrow> pystr option \<Rightarrow> pystr list" where
  "find_columns sm stud cat mc prefix suffix =
     (let sel = (if cat \<noteq> py ''any''
                 then filter (\<lambda>e. contains (student e) stud \<and> contains (category e) cat) sm
                 else filter (\<lambda>e. contains (student e) stud) sm);
          cols = concat (map (\<lambda>e. case map_col_value mc e of
                                     None \<Rightarrow> []
                                   | Some col \<Rightarrow> if col \<noteq> py ''nan'' then [col] else []) sel)
      in case prefix of
           Some (p # ps) \<Rightarrow> add_prefix_suffix cols (p # ps) (py ''p'')
         | _ \<Rightarrow> (case suffix of
                   Some (q # qs) \<Rightarrow> add_prefix_suffix cols (q # qs) (py ''s'')
                 | _ \<Rightarrow> cols))"

text \<open>
  \<^verbatim>\<open>for col in rating_cols:
      cols.append(col + ' (avg)')
      cols.append(col + ' (std)')\<close>
\<close>

definition gen_pe_rating_columns :: "pystr list \<Rightarrow> pystr list" where
  "gen_pe_rating_columns rating_cols =
     concat (map (\<lambda>col. [col @ py '' (avg)'', col @ py '' (std)'']) rating_cols)"

section \<open>Processing the evaluations\<close>

subsection \<open>Converting and averaging ratings\<close>

text \<open>
  \<^verbatim>\<open>ratings=ratings.copy()
  for i in ratings.index:
      for c in ratings.columns:
          ratings.loc[i,c] = map_points[ratings.loc[i,c]]
  return ratings\<close>

  The loops visit the cells row by row; \<open>map_points[x]\<close> raises \<open>KeyError\<close> for a key the
  dictionary does not have, which ends the function at the first such cell.
\<close>

fun convert_row :: "lexicon \<Rightarrow> cell list \<Rightarrow> error + cell list" where
  "convert_row map_points [] = Inr []"
| "convert_row map_points (x # xs) =
     (case map_points x of
        None \<Rightarrow> Inl KeyError
      | Some v \<Rightarrow> (case convert_row map_points xs of
                     Inl e \<Rightarrow> Inl e
                   | Inr vs \<Rightarrow> Inr (Num v # vs)))"

fun convert_rows :: "lexicon \<Rightarrow> cell list list \<Rightarrow> error + cell list list" where
  "convert_rows map_points [] = Inr []"
| "convert_rows map_points (r # rs) =
     (case convert_row map_points r of
        Inl e \<Rightarrow> Inl e
      | Inr r' \<Rightarrow> (case convert_rows map_points rs of
                     Inl e \<Rightarrow> Inl e
                   | Inr rs' \<Rightarrow> Inr (r' # rs')))"

definition convert_ratings :: "lexicon \<Rightarrow> frame \<Rightarrow> error + frame" where
  "convert_ratings map_points ratings =
     (case convert_rows map_points (rows ratings) of
        Inl e \<Rightarrow> Inl e
      | Inr rs \<Rightarrow> Inr (ratings\<lparr>rows := rs\<rparr>))"

text \<open>The dictionary \<open>pe_cols\<close> of \<open>process_peer_evals\<close>, with its five keys.\<close>

record pe_cols =
  general :: "pystr list"
  comments :: "pystr list"
  rating :: "pystr list"
  all_cols :: "pystr list"
  rating_avg :: "pystr list"

text \<open>
  \<^verbatim>\<open>for comment_col in pe_cols['comments']:
      comments = list(eval_df[comment_col])
      comments = [c for c in list(eval_df[comment_col]) if c not in NA_LIST]
      avgs[comment_col] = ' | '.join(comments)\<close>
\<close>

fun combine_comments :: "frame \<Rightarrow> pystr list \<Rightarrow> frame \<Rightarrow> error + frame" where
  "combine_comments eval_df [] avgs = Inr avgs"
| "combine_comments eval_df (comment_col # cols) avgs =
     (case get_col eval_df (Str comment_col) of
        Inl e \<Rightarrow> Inl e
      | Inr cs \<Rightarrow>
          (case strs (filter (\<lambda>c. c \<notin> set NA_LIST) cs) of
             Inl e \<Rightarrow> Inl e
           | Inr ss \<Rightarrow>
               combine_comments eval_df cols
                 (set_col_const avgs (Str comment_col) (Str (join (py '' | '') ss)))))"

text \<open>
  \<^verbatim>\<open>for c in pe_cols['rating']:
      avgs[c + ' (avg)'] = round(mean(list(ratings[c])),2)
      if avgs.loc[0,'PE: N']==1:
          avgs[c + ' (std)'] = np.nan
      else:
          avgs[c + ' (std)'] = round(stdev(list(ratings[c])),2)\<close>
\<close>

fun average_loop :: "frame \<Rightarrow> pystr list \<Rightarrow> frame \<Rightarrow> error + frame" where
  "average_loop ratings [] avgs = Inr avgs"
| "average_loop ratings (c # cs) avgs =
     (case get_col ratings (Str c) of
        Inl e \<Rightarrow> Inl e
      | Inr col \<Rightarrow>
          (case nums col of
             Inl e \<Rightarrow> Inl e
           | Inr xs \<Rightarrow>
               (case mean xs of
                  Inl e \<Rightarrow> Inl e
                | Inr m \<Rightarrow>
                    (let avgs1 = set_col_const avgs (Str (c @ py '' (avg)'')) (Num (round2 m))
                     in case loc_get0 avgs1 (Str (py ''PE: N'')) of
                          Inl e \<Rightarrow> Inl e
                        | Inr n \<Rightarrow>
                            if n = Num 1
                            then average_loop ratings cs
                                   (set_col_const avgs1 (Str (c @ py '' (std)'')) NaN)
                            else (case stdev xs of
                                    Inl e \<Rightarrow> Inl e
                                  | Inr sd \<Rightarrow>
                                      average_loop ratings cs
                                        (set_col_const avgs1 (Str (c @ py '' (std)''))
                                           (Num (round2 sd))))))))"

text \<open>
  \<^verbatim>\<open>avgs = pd.DataFrame(columns=pe_cols['all'])
  avgs.loc[0,'PE: N'] = eval_df.shape[0]
  ... combine comments ...
  ratings = convert_ratings(map_points, eval_df[pe_cols['rating']])
  ... average the ratings ...
  return avgs\<close>
\<close>

definition average_ratings :: "frame \<Rightarrow> pe_cols \<Rightarrow> lexicon \<Rightarrow> error + frame" where
  "average_ratings eval_df pe map_points =
     (let avgs = loc_set0 \<lparr>columns = map Str (all_cols pe), rows = []\<rparr>
                   (Str (py ''PE: N'')) (Num (real (length (rows eval_df))))
      in case combine_comments eval_df (comments pe) avgs of
           Inl e \<Rightarrow> Inl e
         | Inr avgs1 \<Rightarrow>
             (case select_cols eval_df (map Str (rating pe)) of
                Inl e \<Rightarrow> Inl e
              | Inr sel \<Rightarrow>
                  (case convert_ratings map_points sel of
                     Inl e \<Rightarrow> Inl e
                   | Inr ratings \<Rightarrow> average_loop ratings (rating pe) avgs1)))"

subsection \<open>Differences between self and peer evaluations\<close>

text \<open>
  The difference of two cells as \<open>pandas\<close> computes it for two columns of objects: the
  difference of two numbers; the missing marker when either cell is missing; a
  \<open>TypeError\<close> when a string meets a cell that is not missing.
\<close>

fun cell_sub :: "cell \<Rightarrow> cell \<Rightarrow> error + cell" where
  "cell_sub (Num a) (Num b) = Inr (Num (a - b))"
| "cell_sub NaN _ = Inr NaN"
| "cell_sub _ NaN = Inr NaN"
| "cell_sub _ _ = Inl TypeError"

fun series_sub :: "cell list \<Rightarrow> cell list \<Rightarrow> error + cell list" where
  "series_sub (x # xs) (y # ys) =
     (case cell_sub x y of
        Inl e \<Rightarrow> Inl e
      | Inr d \<Rightarrow> (case series_sub xs ys of Inl e \<Rightarrow> Inl e | Inr ds \<Rightarrow> Inr (d # ds)))"
| "series_sub _ _ = Inr []"

text \<open>
  \<^verbatim>\<open>for col in match_cols:
      diff_col_name = 'SE-PE: ' + col
      grade_book[diff_col_name] = (
          grade_book['SE: '+col] - grade_book[col + ' (avg)'])\<close>
\<close>

fun calc_differences_loop :: "frame \<Rightarrow> pystr list \<Rightarrow> error + frame" where
  "calc_differences_loop grade_book [] = Inr grade_book"
| "calc_differences_loop grade_book (col # cols) =
     (case get_col grade_book (Str (py ''SE: '' @ col)) of
        Inl e \<Rightarrow> Inl e
      | Inr se \<Rightarrow>
          (case get_col grade_book (Str (col @ py '' (avg)'')) of
             Inl e \<Rightarrow> Inl e
           | Inr pe \<Rightarrow>
               (case series_sub se pe of
                  Inl e \<Rightarrow> Inl e
                | Inr d \<Rightarrow>
                    calc_differences_loop
                      (set_col grade_book (Str (py ''SE-PE: '' @ col)) d) cols)))"

text \<open>
  \<^verbatim>\<open>se_cols = find_columns(survey_map, 'self', 'rating')
  pe_cols = find_columns(survey_map, first_peer(survey_map), 'rating')
  match_cols = set(se_cols).intersection(pe_cols)\<close>

  Python iterates the set \<open>match_cols\<close> in an order of its own; the model takes the order
  of \<open>se_cols\<close>. The loop writes one column per category, so only the order of the new
  columns depends on it.
\<close>

definition calc_differences :: "frame \<Rightarrow> survey_map \<Rightarrow> error + frame" where
  "calc_differences grade_book sm =
     (let se_cols = find_columns sm (py ''self'') (py ''rating'') Newhead None None
      in case first_peer sm of
           Inl e \<Rightarrow> Inl e
         | Inr fp \<Rightarrow>
             (let pe_cols = find_columns sm fp (py ''rating'') Newhead None None;
                  match_cols = remdups (filter (\<lambda>c. c \<in> set pe_cols) se_cols)
              in calc_differences_loop grade_book match_cols))"

subsection \<open>More table operations\<close>

text \<open>
  \<open>series == value\<close>, cell by cell, as a row mask: \<open>KeyError\<close> without the column; the
  missing marker equals nothing.
\<close>

definition eq_mask :: "frame \<Rightarrow> cell \<Rightarrow> cell \<Rightarrow> error + (cell list \<Rightarrow> bool)" where
  "eq_mask df l v =
     (case col_index (columns df) l of
        None \<Rightarrow> Inl KeyError
      | Some j \<Rightarrow> Inr (\<lambda>r. r ! j = v \<and> v \<noteq> NaN))"

definition write_cells :: "nat list \<Rightarrow> cell list \<Rightarrow> cell list \<Rightarrow> cell list" where
  "write_cells js vs r = fold (\<lambda>(j, v) r. r[j := v]) (zip js vs) r"

fun assign_masked ::
  "(cell list \<Rightarrow> bool) \<Rightarrow> nat list \<Rightarrow> cell list list \<Rightarrow> cell list list \<Rightarrow> cell list list" where
  "assign_masked msk js [] vals = []"
| "assign_masked msk js (r # rs) vals =
     (if msk r
      then (case vals of
              [] \<Rightarrow> r # rs
            | v # vals' \<Rightarrow> write_cells js v r # assign_masked msk js rs vals')
      else r # assign_masked msk js rs vals)"

text \<open>
  \<open>df.loc[mask, labels] = values\<close> for a two-dimensional array of values, one row of values
  per selected row of the table: \<open>KeyError\<close> for a label the table lacks, \<open>ValueError\<close>
  when the number of rows of values is not the number of selected rows. (With one row of
  values and several selected rows some versions of \<open>pandas\<close> repeat the row instead; the
  program meets that case only for a roster with a repeated name or login id.)
\<close>

definition assign_rows ::
  "frame \<Rightarrow> (cell list \<Rightarrow> bool) \<Rightarrow> cell list \<Rightarrow> cell list list \<Rightarrow> error + frame" where
  "assign_rows df msk ls vals =
     (case col_indices (columns df) ls of
        Inl e \<Rightarrow> Inl e
      | Inr js \<Rightarrow>
          if length (filter msk (rows df)) \<noteq> length vals then Inl ValueError
          else Inr (df\<lparr>rows := assign_masked msk js (rows df) vals\<rparr>))"

text \<open>The cells of a column that is known to exist.\<close>

definition col_of :: "frame \<Rightarrow> cell \<Rightarrow> cell list" where
  "col_of df l = (case get_col df l of Inl e \<Rightarrow> [] | Inr cs \<Rightarrow> cs)"

text \<open>\<open>df.loc[:, labels] = other\<close> for a table \<open>other\<close> with these labels and as many rows.\<close>

definition assign_cols :: "frame \<Rightarrow> cell list \<Rightarrow> frame \<Rightarrow> frame" where
  "assign_cols df ls other = fold (\<lambda>l d. set_col d l (col_of other l)) ls df"

text \<open>\<open>df.loc[:, labels] = df[labels].replace('', np.nan)\<close>\<close>

definition replace_empty :: "frame \<Rightarrow> cell list \<Rightarrow> error + frame" where
  "replace_empty df ls =
     (case select_cols df ls of
        Inl e \<Rightarrow> Inl e
      | Inr sel \<Rightarrow>
          Inr (assign_cols df ls
                 (sel\<lparr>rows := map (map (\<lambda>c. if c = Str [] then NaN else c)) (rows sel)\<rparr>)))"

text \<open>
  \<open>df.loc[label]\<close> on a table whose row labels are \<open>0, 1, 2, \<dots>\<close>: the row at that position,
  \<open>KeyError\<close> for anything that is not the position of a row.
\<close>

definition row_at :: "frame \<Rightarrow> cell \<Rightarrow> error + cell list" where
  "row_at df l =
     (case l of
        Num x \<Rightarrow>
          (let i = nat \<lfloor>x\<rfloor>
           in if 0 \<le> x \<and> real i = x \<and> i < length (rows df) then Inr (rows df ! i)
              else Inl KeyError)
      | _ \<Rightarrow> Inl KeyError)"

text \<open>A call of a string method on a cell: a cell that is not a string has no such method.\<close>

definition call_split_email :: "cell \<Rightarrow> error + pystr" where
  "call_split_email c = (case c of Str s \<Rightarrow> split_email s | _ \<Rightarrow> Inl AttributeError)"

definition call_fix_name :: "cell \<Rightarrow> error + pystr" where
  "call_fix_name c = (case c of Str s \<Rightarrow> Inr (fix_name s) | _ \<Rightarrow> Inl AttributeError)"

subsection \<open>Asking the operator\<close>

text \<open>
  \<open>find_student\<close> receives the response as \<open>eval_row\<close>: from \<open>process_peer_evals\<close> one row of
  the response table (a \<open>Series\<close>, the column labels and the cells), from
  \<open>process_self_evals\<close> the table of the rows with the e-mail address of the response
  (a \<open>DataFrame\<close>). \<open>eval_row[label]\<close> is then a cell or a column.
\<close>

datatype eval_row = Series "cell list" "cell list" | DataFrame frame

datatype item = Scalar cell | Column "cell list"

definition get_item :: "eval_row \<Rightarrow> cell \<Rightarrow> error + item" where
  "get_item er l =
     (case er of
        Series ls vs \<Rightarrow>
          (case col_index ls l of None \<Rightarrow> Inl KeyError | Some j \<Rightarrow> Inr (Scalar (vs ! j)))
      | DataFrame df \<Rightarrow>
          (case get_col df l of Inl e \<Rightarrow> Inl e | Inr cs \<Rightarrow> Inr (Column cs)))"

text \<open>
  \<open>x in NA_LIST\<close>: for a column the comparison with the first element of the list yields
  a column of truth values, whose truth value \<open>pandas\<close> refuses with a \<open>ValueError\<close>.
\<close>

definition in_NA_LIST :: "item \<Rightarrow> error + bool" where
  "in_NA_LIST x = (case x of Scalar c \<Rightarrow> Inr (c \<in> set NA_LIST) | Column cs \<Rightarrow> Inl ValueError)"

text \<open>
  An operand of the \<open>+\<close> that builds the prompt from string literals: a cell must be a
  string; a column is joined cell by cell, which a number in it refuses. The text of the
  prompt itself is not modelled, only whether building it raises.
\<close>

definition prompt_operand :: "item \<Rightarrow> error + unit" where
  "prompt_operand x =
     (case x of
        Scalar (Str s) \<Rightarrow> Inr ()
      | Scalar _ \<Rightarrow> Inl TypeError
      | Column cs \<Rightarrow> if \<exists>c\<in>set cs. is_num c then Inl TypeError else Inr ())"

fun prompt_operands :: "item list \<Rightarrow> error + unit" where
  "prompt_operands [] = Inr ()"
| "prompt_operands (x # xs) =
     (case prompt_operand x of Inl e \<Rightarrow> Inl e | Inr u \<Rightarrow> prompt_operands xs)"

text \<open>
  \<^verbatim>\<open>for category in r_info:
      r_info[category] = eval_row[
          find_columns(survey_map, 'self', category=category,
                      map_col='survey_column')[0]]\<close>
\<close>

definition r_info_item :: "survey_map \<Rightarrow> eval_row \<Rightarrow> pystr \<Rightarrow> error + item" where
  "r_info_item sm er cat =
     (case index0 (find_columns sm (py ''self'') cat Survey_column None None) of
        Inl e \<Rightarrow> Inl e
      | Inr col \<Rightarrow> get_item er (Str col))"

text \<open>
  \<^verbatim>\<open>for peer in unique_peers(survey_map):
      peer_name = eval_row[
          find_columns(survey_map, peer, category='name',
                      map_col='survey_column')[0]]
      if not peer_name in NA_LIST:
          peer_names.append(peer_name)\<close>
\<close>

fun collect_peer_names :: "survey_map \<Rightarrow> eval_row \<Rightarrow> pystr list \<Rightarrow> error + item list" where
  "collect_peer_names sm er [] = Inr []"
| "collect_peer_names sm er (peer # peers) =
     (case index0 (find_columns sm peer (py ''name'') Survey_column None None) of
        Inl e \<Rightarrow> Inl e
      | Inr col \<Rightarrow>
          (case get_item er (Str col) of
             Inl e \<Rightarrow> Inl e
           | Inr peer_name \<Rightarrow>
               (case in_NA_LIST peer_name of
                  Inl e \<Rightarrow> Inl e
                | Inr na \<Rightarrow>
                    (case collect_peer_names sm er peers of
                       Inl e \<Rightarrow> Inl e
                     | Inr names \<Rightarrow> Inr (if na then names else peer_name # names)))))"

text \<open>
  \<^verbatim>\<open>while True:
      name = input(...)
      if (name in list(grade_book['Name'])) or (name in NA_LIST):
          break
      print(error_str + name)\<close>

  The operator is the list of the lines still to be typed; \<open>input\<close> takes the first and
  raises \<open>EOFError\<close> when there is none. The prompt is built anew in every round, before
  \<open>input\<close> is called; \<open>prompt\<close> is the outcome of building it.
\<close>

fun ask :: "frame \<Rightarrow> error + unit \<Rightarrow> pystr list \<Rightarrow> error + pystr \<times> pystr list" where
  "ask grade_book prompt [] = (case prompt of Inl e \<Rightarrow> Inl e | Inr u \<Rightarrow> Inl EOFError)"
| "ask grade_book prompt (name # answers) =
     (case prompt of
        Inl e \<Rightarrow> Inl e
      | Inr u \<Rightarrow>
          (case get_col grade_book (Str (py ''Name'')) of
             Inl e \<Rightarrow> Inl e
           | Inr names \<Rightarrow>
               if Str name \<in> set names \<or> Str name \<in> set NA_LIST then Inr (name, answers)
               else ask grade_book prompt answers))"

text \<open>
  \<open>find_student\<close>: the identifying cells of the response are looked up, the names of the
  peers it evaluates are collected, and the operator is asked until the answer is a name
  of the roster or an element of \<open>NA_LIST\<close>. In the branch for \<open>student == 'self'\<close> the
  function first calls \<open>split_email(r_info['email'])\<close>; a column has no method \<open>split\<close>.
\<close>

definition find_student ::
  "frame \<Rightarrow> survey_map \<Rightarrow> eval_row \<Rightarrow> pystr \<Rightarrow> pystr list \<Rightarrow> error + pystr \<times> pystr list" where
  "find_student grade_book sm er stud answers =
     (case r_info_item sm er (py ''section'') of
        Inl e \<Rightarrow> Inl e
      | Inr section \<Rightarrow>
     (case r_info_item sm er (py ''team'') of
        Inl e \<Rightarrow> Inl e
      | Inr team \<Rightarrow>
     (case r_info_item sm er (py ''email'') of
        Inl e \<Rightarrow> Inl e
      | Inr email \<Rightarrow>
     (case r_info_item sm er (py ''name'') of
        Inl e \<Rightarrow> Inl e
      | Inr rname \<Rightarrow>
     (case collect_peer_names sm er (unique_peers sm) of
        Inl e \<Rightarrow> Inl e
      | Inr peer_names \<Rightarrow>
          if stud = py ''self''
          then (case (case email of
                        Scalar c \<Rightarrow> call_split_email c
                      | Column cs \<Rightarrow> Inl AttributeError) of
                  Inl e \<Rightarrow> Inl e
                | Inr reviewer_id \<Rightarrow>
                    ask grade_book (prompt_operands [rname, section, team]) answers)
          else ask grade_book (prompt_operands ([section, team, rname] @ peer_names))
                 answers)))))"

subsection \<open>Self-evaluations\<close>

text \<open>
  The body of the loop \<open>for email in list_emails\<close> of \<open>process_self_evals\<close>:

  \<^verbatim>\<open>student_id = split_email(email)
  if student_id in list(grade_book[GB_SID]):
      grade_book.loc[grade_book[GB_SID]==student_id, evals_self.columns] = (
          evals_self.loc[evals_self[col_email]==email].values)
  else:
      [student_name] = evals_self.loc[evals_self[col_email]==email,'SE: Name']
      student_name = fix_name(student_name)
      if student_name not in list(grade_book['Name']):
          eval_row = survey_results.loc[survey_results[find_columns(
              survey_map, 'self', 'email',
              map_col='survey_column')[0]]==email].copy()
          student_name = find_student(grade_book, survey_map, eval_row, 'self')
      if student_name not in NA_LIST:
          grade_book.loc[grade_book['Name']==student_name, evals_self.columns] = (
              evals_self.loc[evals_self[col_email]==email].values)\<close>
\<close>

definition self_eval_step ::
  "survey_map \<Rightarrow> frame \<Rightarrow> frame \<Rightarrow> cell \<Rightarrow> cell \<Rightarrow> frame \<Rightarrow> pystr list
     \<Rightarrow> error + frame \<times> pystr list" where
  "self_eval_step sm survey_results evals_self col_email email grade_book answers =
     (case call_split_email email of
        Inl e \<Rightarrow> Inl e
      | Inr student_id \<Rightarrow>
     (case get_col grade_book (Str GB_SID) of
        Inl e \<Rightarrow> Inl e
      | Inr sids \<Rightarrow>
     (case eq_mask evals_self col_email email of
        Inl e \<Rightarrow> Inl e
      | Inr this_email \<Rightarrow>
          if Str student_id \<in> set sids
          then (case eq_mask grade_book (Str GB_SID) (Str student_id) of
                  Inl e \<Rightarrow> Inl e
                | Inr this_id \<Rightarrow>
                    (case assign_rows grade_book this_id (columns evals_self)
                            (filter this_email (rows evals_self)) of
                       Inl e \<Rightarrow> Inl e
                     | Inr gb \<Rightarrow> Inr (gb, answers)))
          else
            (case get_col (evals_self\<lparr>rows := filter this_email (rows evals_self)\<rparr>)
                    (Str (py ''SE: Name'')) of
               Inl e \<Rightarrow> Inl e
             | Inr [student_name] \<Rightarrow>
                 (case call_fix_name student_name of
                    Inl e \<Rightarrow> Inl e
                  | Inr fixed \<Rightarrow>
                 (case get_col grade_book (Str (py ''Name'')) of
                    Inl e \<Rightarrow> Inl e
                  | Inr names \<Rightarrow>
                 (case (if Str fixed \<notin> set names
                        then (case index0 (find_columns sm (py ''self'') (py ''email'')
                                             Survey_column None None) of
                                Inl e \<Rightarrow> Inl e
                              | Inr col \<Rightarrow>
                                  (case eq_mask survey_results (Str col) email of
                                     Inl e \<Rightarrow> Inl e
                                   | Inr this_response \<Rightarrow>
                                       find_student grade_book sm
                                         (DataFrame (survey_results
                                            \<lparr>rows := filter this_response (rows survey_results)\<rparr>))
                                         (py ''self'') answers))
                        else Inr (fixed, answers)) of
                    Inl e \<Rightarrow> Inl e
                  | Inr (student_name', answers') \<Rightarrow>
                      if Str student_name' \<notin> set NA_LIST
                      then (case eq_mask grade_book (Str (py ''Name'')) (Str student_name') of
                              Inl e \<Rightarrow> Inl e
                            | Inr this_name \<Rightarrow>
                                (case assign_rows grade_book this_name (columns evals_self)
                                        (filter this_email (rows evals_self)) of
                                   Inl e \<Rightarrow> Inl e
                                 | Inr gb \<Rightarrow> Inr (gb, answers')))
                      else Inr (grade_book, answers'))))
             | Inr _ \<Rightarrow> Inl ValueError))))"

fun self_eval_loop ::
  "survey_map \<Rightarrow> frame \<Rightarrow> frame \<Rightarrow> cell \<Rightarrow> cell list \<Rightarrow> frame \<Rightarrow> pystr list
     \<Rightarrow> error + frame \<times> pystr list" where
  "self_eval_loop sm survey_results evals_self col_email [] grade_book answers =
     Inr (grade_book, answers)"
| "self_eval_loop sm survey_results evals_self col_email (email # emails) grade_book answers =
     (case self_eval_step sm survey_results evals_self col_email email grade_book answers of
        Inl e \<Rightarrow> Inl e
      | Inr (gb, answers') \<Rightarrow>
          self_eval_loop sm survey_results evals_self col_email emails gb answers')"

text \<open>
  \<^verbatim>\<open>cols_self = (find_columns(survey_map, 'self', map_col='survey_column')
               + find_columns(survey_map, 'general', map_col='survey_column'))
  evals_self = survey_results.loc[:,cols_self].copy()
  evals_self.columns = (find_columns(survey_map, 'self', prefix='SE')
                        + find_columns(survey_map, 'general'))
  grade_book = add_empty_cols(grade_book, evals_self.columns)
  rating_cols = find_columns(survey_map, 'self', 'rating', prefix='SE')
  evals_self.loc[:,rating_cols] = convert_ratings(
      map_points, evals_self[rating_cols])
  [col_email] = find_columns(survey_map,'self','email', prefix = 'SE')
  list_emails = evals_self[col_email]
  for email in list_emails: ...
  check_cols = rating_cols + find_columns(survey_map, 'self', 'score', prefix='SE')
  grade_book.loc[:,check_cols]=grade_book[check_cols].replace('', np.nan)
  return grade_book\<close>

  Assigning new column labels of another number raises \<open>ValueError\<close>, as does unpacking a
  list that has not exactly one element into \<open>[col_email]\<close>. Nothing in the function
  catches an exception.
\<close>

definition process_self_evals ::
  "frame \<Rightarrow> frame \<Rightarrow> survey_map \<Rightarrow> lexicon \<Rightarrow> pystr list \<Rightarrow> error + frame \<times> pystr list" where
  "process_self_evals grade_book survey_results sm map_points answers =
     (let cols_self = find_columns sm (py ''self'') (py ''any'') Survey_column None None
                      @ find_columns sm (py ''general'') (py ''any'') Survey_column None None;
          new_cols = find_columns sm (py ''self'') (py ''any'') Newhead (Some (py ''SE'')) None
                     @ find_columns sm (py ''general'') (py ''any'') Newhead None None;
          rating_cols = find_columns sm (py ''self'') (py ''rating'') Newhead (Some (py ''SE'')) None;
          check_cols = rating_cols
                       @ find_columns sm (py ''self'') (py ''score'') Newhead (Some (py ''SE'')) None
      in case select_cols survey_results (map Str cols_self) of
           Inl e \<Rightarrow> Inl e
         | Inr evals_self0 \<Rightarrow>
             if length new_cols \<noteq> length cols_self then Inl ValueError
             else
               (let evals_self1 = evals_self0\<lparr>columns := map Str new_cols\<rparr>;
                    grade_book1 = add_empty_cols grade_book (columns evals_self1)
                in case select_cols evals_self1 (map Str rating_cols) of
                     Inl e \<Rightarrow> Inl e
                   | Inr sel \<Rightarrow>
                       (case convert_ratings map_points sel of
                          Inl e \<Rightarrow> Inl e
                        | Inr converted \<Rightarrow>
                            (let evals_self = assign_cols evals_self1 (map Str rating_cols) converted
                             in case find_columns sm (py ''self'') (py ''email'') Newhead
                                       (Some (py ''SE'')) None of
                                  [col_email] \<Rightarrow>
                                    (case get_col evals_self (Str col_email) of
                                       Inl e \<Rightarrow> Inl e
                                     | Inr list_emails \<Rightarrow>
                                         (case self_eval_loop sm survey_results evals_self
                                                 (Str col_email) list_emails grade_book1 answers of
                                            Inl e \<Rightarrow> Inl e
                                          | Inr (gb, answers') \<Rightarrow>
                                              (case replace_empty gb (map Str check_cols) of
                                                 Inl e \<Rightarrow> Inl e
                                               | Inr gb' \<Rightarrow> Inr (gb', answers'))))
                                | _ \<Rightarrow> Inl ValueError))))"

subsection \<open>Peer evaluations\<close>

text \<open>
  \<^verbatim>\<open>for peer in all_peers:
      peer_evals = survey_results.loc[
          :,survey_map.loc[survey_map['student']==peer, 'survey_column']]
      peer_evals = np.column_stack((peer_evals.index,peer_evals.values))
      evals_peer = evals_peer.append(pd.DataFrame(
          data=peer_evals, columns = evals_peer.columns), ignore_index=True)\<close>

  Each row of a peer slot is prefixed with the position of its response. \<open>pd.DataFrame\<close>
  raises \<open>ValueError\<close> when the data are not as wide as the column labels.
\<close>

fun build_evals_peer ::
  "frame \<Rightarrow> survey_map \<Rightarrow> cell list \<Rightarrow> pystr list \<Rightarrow> error + cell list list" where
  "build_evals_peer survey_results sm cols [] = Inr []"
| "build_evals_peer survey_results sm cols (peer # peers) =
     (case select_cols survey_results
             (map (\<lambda>e. Str (survey_column e)) (filter (\<lambda>e. student e = peer) sm)) of
        Inl e \<Rightarrow> Inl e
      | Inr peer_evals \<Rightarrow>
          if Suc (length (columns peer_evals)) \<noteq> length cols then Inl ValueError
          else (case build_evals_peer survey_results sm cols peers of
                  Inl e \<Rightarrow> Inl e
                | Inr rest \<Rightarrow>
                    Inr (map (\<lambda>(i, r). Num (real i) # r) (enumerate 0 (rows peer_evals))
                         @ rest)))"

text \<open>
  The dictionary \<open>evals_peer_compiled\<close>, from a name of the roster to the rows collected
  for it, in the order in which the keys were first inserted.
\<close>

type_synonym compiled = "(cell \<times> cell list list) list"

fun append_eval :: "compiled \<Rightarrow> cell \<Rightarrow> cell list \<Rightarrow> error + compiled" where
  "append_eval [] name r = Inl KeyError"
| "append_eval ((k, rs) # d) name r =
     (if k = name then Inr ((k, rs @ [r]) # d)
      else (case append_eval d name r of Inl e \<Rightarrow> Inl e | Inr d' \<Rightarrow> Inr ((k, rs) # d')))"

text \<open>
  The body of the loop \<open>for peer_eval in evals_peer.index\<close>:

  \<^verbatim>\<open>name = evals_peer.loc[peer_eval, col_peername]
  if name in NA_LIST:
      continue
  if name not in list(grade_book['Name']):
      name = fix_name(name)
      if name not in list(grade_book['Name']):
          eval_row = survey_results.loc[
              evals_peer.loc[peer_eval,'review_row']].copy()
          name = find_student(grade_book, survey_map, eval_row, name)
  if name == 'NA':
      continue
  evals_peer_compiled[name] = evals_peer_compiled[name].append(
      evals_peer.loc[peer_eval])\<close>
\<close>

definition peer_eval_step ::
  "survey_map \<Rightarrow> frame \<Rightarrow> frame \<Rightarrow> cell list \<Rightarrow> cell \<Rightarrow> cell list \<Rightarrow> compiled \<Rightarrow> pystr list
     \<Rightarrow> error + compiled \<times> pystr list" where
  "peer_eval_step sm survey_results grade_book cols col_peername peer_eval evals_peer_compiled answers =
     (case col_index cols col_peername of
        None \<Rightarrow> Inl KeyError
      | Some j \<Rightarrow>
          (let name = peer_eval ! j
           in if name \<in> set NA_LIST then Inr (evals_peer_compiled, answers)
              else
                (case get_col grade_book (Str (py ''Name'')) of
                   Inl e \<Rightarrow> Inl e
                 | Inr names \<Rightarrow>
                (case (if name \<notin> set names
                       then (case call_fix_name name of
                               Inl e \<Rightarrow> Inl e
                             | Inr fixed \<Rightarrow>
                                 if Str fixed \<notin> set names
                                 then (case col_index cols (Str (py ''review_row'')) of
                                         None \<Rightarrow> Inl KeyError
                                       | Some k \<Rightarrow>
                                           (case row_at survey_results (peer_eval ! k) of
                                              Inl e \<Rightarrow> Inl e
                                            | Inr eval_row \<Rightarrow>
                                                (case find_student grade_book sm
                                                        (Series (columns survey_results) eval_row)
                                                        fixed answers of
                                                   Inl e \<Rightarrow> Inl e
                                                 | Inr (found, answers') \<Rightarrow>
                                                     Inr (Str found, answers'))))
                                 else Inr (Str fixed, answers))
                       else Inr (name, answers)) of
                   Inl e \<Rightarrow> Inl e
                 | Inr (name', answers') \<Rightarrow>
                     if name' = Str (py ''NA'') then Inr (evals_peer_compiled, answers')
                     else (case append_eval evals_peer_compiled name' peer_eval of
                             Inl e \<Rightarrow> Inl e
                           | Inr d \<Rightarrow> Inr (d, answers'))))))"

fun peer_eval_loop ::
  "survey_map \<Rightarrow> frame \<Rightarrow> frame \<Rightarrow> cell list \<Rightarrow> cell \<Rightarrow> cell list list \<Rightarrow> compiled \<Rightarrow> pystr list
     \<Rightarrow> error + compiled \<times> pystr list" where
  "peer_eval_loop sm survey_results grade_book cols col_peername [] evals_peer_compiled answers =
     Inr (evals_peer_compiled, answers)"
| "peer_eval_loop sm survey_results grade_book cols col_peername (peer_eval # evals)
     evals_peer_compiled answers =
     (case peer_eval_step sm survey_results grade_book cols col_peername peer_eval
             evals_peer_compiled answers of
        Inl e \<Rightarrow> Inl e
      | Inr (d, answers') \<Rightarrow>
          peer_eval_loop sm survey_results grade_book cols col_peername evals d answers')"

text \<open>
  \<^verbatim>\<open>for student in evals_peer_compiled:
      eval_df = evals_peer_compiled[student].copy()
      if not eval_df.empty:
          avgs=average_ratings(evals_peer_compiled[student].copy(), pe_cols,
                             map_points)
          grade_book.loc[grade_book['Name']==student, pe_cols['all']]=avgs.values\<close>
\<close>

fun write_averages ::
  "cell list \<Rightarrow> pe_cols \<Rightarrow> lexicon \<Rightarrow> compiled \<Rightarrow> frame \<Rightarrow> error + frame" where
  "write_averages cols pe map_points [] grade_book = Inr grade_book"
| "write_averages cols pe map_points ((stud, evals) # rest) grade_book =
     (if evals = [] then write_averages cols pe map_points rest grade_book
      else (case average_ratings \<lparr>columns = cols, rows = evals\<rparr> pe map_points of
              Inl e \<Rightarrow> Inl e
            | Inr avgs \<Rightarrow>
                (case eq_mask grade_book (Str (py ''Name'')) stud of
                   Inl e \<Rightarrow> Inl e
                 | Inr this_name \<Rightarrow>
                     (case assign_rows grade_book this_name (map Str (all_cols pe)) (rows avgs) of
                        Inl e \<Rightarrow> Inl e
                      | Inr gb \<Rightarrow> write_averages cols pe map_points rest gb))))"

text \<open>
  \<open>process_peer_evals\<close>. The peer slots are visited in the order of \<open>unique_peers\<close> (Python
  iterates the set \<open>all_peers\<close> in an order of its own). The key of a name that occurs
  twice in the roster is inserted once. \<open>[col_peername] = find_columns(\<dots>)\<close> raises
  \<open>ValueError\<close> unless the list has exactly one element; nothing catches an exception.
\<close>

definition process_peer_evals ::
  "frame \<Rightarrow> frame \<Rightarrow> survey_map \<Rightarrow> lexicon \<Rightarrow> pystr list \<Rightarrow> error + frame \<times> pystr list" where
  "process_peer_evals grade_book survey_results sm map_points answers =
     (case first_peer sm of
        Inl e \<Rightarrow> Inl e
      | Inr firstpeer \<Rightarrow>
          (let newcols_peers = map (\<lambda>e. case newhead e of None \<Rightarrow> NaN | Some h \<Rightarrow> Str h)
                                 (filter (\<lambda>e. student e = firstpeer) sm);
               cols = Str (py ''review_row'') # newcols_peers
           in case build_evals_peer survey_results sm cols (unique_peers sm) of
                Inl e \<Rightarrow> Inl e
              | Inr evals_peer \<Rightarrow>
                  (let comment_cols = find_columns sm firstpeer (py ''comments'') Newhead None None;
                       rating_cols = find_columns sm firstpeer (py ''rating'') Newhead None None;
                       pe = \<lparr>general = [py ''PE: N''], comments = comment_cols,
                             rating = rating_cols,
                             all_cols = [py ''PE: N''] @ comment_cols
                                        @ gen_pe_rating_columns rating_cols,
                             rating_avg = gen_pe_rating_columns rating_cols\<rparr>;
                       grade_book1 = add_empty_cols grade_book (map Str (all_cols pe))
                   in case get_col grade_book1 (Str (py ''Name'')) of
                        Inl e \<Rightarrow> Inl e
                      | Inr names \<Rightarrow>
                          (case find_columns sm firstpeer (py ''name'') Newhead None None of
                             [col_peername] \<Rightarrow>
                               (case peer_eval_loop sm survey_results grade_book1 cols
                                       (Str col_peername) evals_peer
                                       (map (\<lambda>s. (s, [])) (rev (remdups (rev names)))) answers of
                                  Inl e \<Rightarrow> Inl e
                                | Inr (evals_peer_compiled, answers') \<Rightarrow>
                                    (case write_averages cols pe map_points evals_peer_compiled
                                            grade_book1 of
                                       Inl e \<Rightarrow> Inl e
                                     | Inr gb \<Rightarrow>
                                         (case replace_empty gb (map Str (all_cols pe)) of
                                            Inl e \<Rightarrow> Inl e
                                          | Inr gb' \<Rightarrow> Inr (gb', answers'))))
                           | _ \<Rightarrow> Inl ValueError))))"

subsection \<open>The run\<close>

text \<open>
  The three stages as the main block calls them, one after the other on the roster; an
  exception of a stage ends the run.

  \<^verbatim>\<open>gradebook = process_self_evals(gradebook, survey_data['responses'], ...)
  gradebook = process_peer_evals(gradebook, survey_data['responses'], ...)
  gradebook = calc_differences(gradebook, survey_data['map_questions'])\<close>
\<close>

definition main_run ::
  "frame \<Rightarrow> frame \<Rightarrow> survey_map \<Rightarrow> lexicon \<Rightarrow> pystr list \<Rightarrow> error + frame \<times> pystr list" where
  "main_run gradebook responses sm map_points answers =
     (case process_self_evals gradebook responses sm map_points answers of
        Inl e \<Rightarrow> Inl e
      | Inr (gb1, answers1) \<Rightarrow>
          (case process_peer_evals gb1 responses sm map_points answers1 of
             Inl e \<Rightarrow> Inl e
           | Inr (gb2, answers2) \<Rightarrow>
               (case calc_differences gb2 sm of
                  Inl e \<Rightarrow> Inl e
                | Inr gb3 \<Rightarrow> Inr (gb3, answers2))))"

subsection \<open>The reducer on a store of table objects\<close>

text \<open>
  The functions above take and return tables as values. Python passes references: a
  \<open>DataFrame\<close> is an object, and \<open>ratings.loc[i,c] = \<dots>\<close> and \<open>avgs[c] = \<dots>\<close> change the
  object they name. Here the tables live in a store and the functions take and return
  positions in it. \<open>pd.DataFrame(\<dots>)\<close>, \<open>df.copy()\<close> and \<open>df[labels]\<close> make a new object; an
  assignment to a cell or column replaces the object at its position. The result of a
  function is the exception or the value together with the store it leaves.
\<close>

type_synonym store = "frame list"

definition alloc :: "frame \<Rightarrow> store \<Rightarrow> nat \<times> store" where
  "alloc f h = (length h, h @ [f])"

definition set_cell :: "frame \<Rightarrow> nat \<Rightarrow> nat \<Rightarrow> cell \<Rightarrow> frame" where
  "set_cell f i j v = f\<lparr>rows := (rows f)[i := (rows f ! i)[j := v]]\<rparr>"

text \<open>
  \<^verbatim>\<open>for c in ratings.columns:
      ratings.loc[i,c] = map_points[ratings.loc[i,c]]\<close>
  for the row \<open>i\<close> and the columns at the positions \<open>js\<close> of the table at \<open>ratings\<close>.
\<close>

fun convert_cells_st ::
  "lexicon \<Rightarrow> nat \<Rightarrow> nat \<Rightarrow> nat list \<Rightarrow> store \<Rightarrow> (error + unit) \<times> store" where
  "convert_cells_st map_points ratings i [] h = (Inr (), h)"
| "convert_cells_st map_points ratings i (j # js) h =
     (case map_points (rows (h ! ratings) ! i ! j) of
        None \<Rightarrow> (Inl KeyError, h)
      | Some v \<Rightarrow>
          convert_cells_st map_points ratings i js
            (h[ratings := set_cell (h ! ratings) i j (Num v)]))"

fun convert_rows_st ::
  "lexicon \<Rightarrow> nat \<Rightarrow> nat list \<Rightarrow> store \<Rightarrow> (error + unit) \<times> store" where
  "convert_rows_st map_points ratings [] h = (Inr (), h)"
| "convert_rows_st map_points ratings (i # idx) h =
     (case convert_cells_st map_points ratings i [0..<length (columns (h ! ratings))] h of
        (Inl e, h') \<Rightarrow> (Inl e, h')
      | (Inr u, h') \<Rightarrow> convert_rows_st map_points ratings idx h')"

text \<open>\<open>convert_ratings\<close>: \<open>ratings.copy()\<close> is a new object, and the loops change that one.\<close>

definition convert_ratings_st :: "lexicon \<Rightarrow> nat \<Rightarrow> store \<Rightarrow> (error + nat) \<times> store" where
  "convert_ratings_st map_points ratings h =
     (case alloc (h ! ratings) h of
        (copy, h1) \<Rightarrow>
          (case convert_rows_st map_points copy [0..<length (rows (h1 ! copy))] h1 of
             (Inl e, h2) \<Rightarrow> (Inl e, h2)
           | (Inr u, h2) \<Rightarrow> (Inr copy, h2)))"

fun combine_comments_st ::
  "nat \<Rightarrow> nat \<Rightarrow> pystr list \<Rightarrow> store \<Rightarrow> (error + unit) \<times> store" where
  "combine_comments_st eval_df avgs [] h = (Inr (), h)"
| "combine_comments_st eval_df avgs (comment_col # cols) h =
     (case get_col (h ! eval_df) (Str comment_col) of
        Inl e \<Rightarrow> (Inl e, h)
      | Inr cs \<Rightarrow>
          (case strs (filter (\<lambda>c. c \<notin> set NA_LIST) cs) of
             Inl e \<Rightarrow> (Inl e, h)
           | Inr ss \<Rightarrow>
               combine_comments_st eval_df avgs cols
                 (h[avgs := set_col_const (h ! avgs) (Str comment_col)
                              (Str (join (py '' | '') ss))])))"

fun average_loop_st ::
  "nat \<Rightarrow> nat \<Rightarrow> pystr list \<Rightarrow> store \<Rightarrow> (error + unit) \<times> store" where
  "average_loop_st ratings avgs [] h = (Inr (), h)"
| "average_loop_st ratings avgs (c # cs) h =
     (case get_col (h ! ratings) (Str c) of
        Inl e \<Rightarrow> (Inl e, h)
      | Inr col \<Rightarrow>
          (case nums col of
             Inl e \<Rightarrow> (Inl e, h)
           | Inr xs \<Rightarrow>
               (case mean xs of
                  Inl e \<Rightarrow> (Inl e, h)
                | Inr m \<Rightarrow>
                    (let h1 = h[avgs := set_col_const (h ! avgs) (Str (c @ py '' (avg)''))
                                          (Num (round2 m))]
                     in case loc_get0 (h1 ! avgs) (Str (py ''PE: N'')) of
                          Inl e \<Rightarrow> (Inl e, h1)
                        | Inr n \<Rightarrow>
                            if n = Num 1
                            then average_loop_st ratings avgs cs
                                   (h1[avgs := set_col_const (h1 ! avgs)
                                                 (Str (c @ py '' (std)'')) NaN])
                            else (case stdev xs of
                                    Inl e \<Rightarrow> (Inl e, h1)
                                  | Inr sd \<Rightarrow>
                                      average_loop_st ratings avgs cs
                                        (h1[avgs := set_col_const (h1 ! avgs)
                                                      (Str (c @ py '' (std)''))
                                                      (Num (round2 sd))]))))))"

text \<open>
  \<open>average_ratings\<close> on the store: \<open>avgs\<close> is a new object; the comments are read from the
  bucket and written to \<open>avgs\<close>; \<open>eval_df[pe_cols['rating']]\<close> is a new object, which
  \<open>convert_ratings\<close> copies and converts; the averages are written to \<open>avgs\<close>, whose
  position is returned.
\<close>

definition average_ratings_st ::
  "nat \<Rightarrow> pe_cols \<Rightarrow> lexicon \<Rightarrow> store \<Rightarrow> (error + nat) \<times> store" where
  "average_ratings_st eval_df pe map_points h =
     (case alloc \<lparr>columns = map Str (all_cols pe), rows = []\<rparr> h of
        (avgs, h1) \<Rightarrow>
          (let h2 = h1[avgs := loc_set0 (h1 ! avgs) (Str (py ''PE: N''))
                                 (Num (real (length (rows (h1 ! eval_df)))))]
           in case combine_comments_st eval_df avgs (comments pe) h2 of
                (Inl e, h3) \<Rightarrow> (Inl e, h3)
              | (Inr u, h3) \<Rightarrow>
                  (case select_cols (h3 ! eval_df) (map Str (rating pe)) of
                     Inl e \<Rightarrow> (Inl e, h3)
                   | Inr selected \<Rightarrow>
                       (case alloc selected h3 of
                          (sel, h4) \<Rightarrow>
                            (case convert_ratings_st map_points sel h4 of
                               (Inl e, h5) \<Rightarrow> (Inl e, h5)
                             | (Inr ratings, h5) \<Rightarrow>
                                 (case average_loop_st ratings avgs (rating pe) h5 of
                                    (Inl e, h6) \<Rightarrow> (Inl e, h6)
                                  | (Inr u, h6) \<Rightarrow> (Inr avgs, h6)))))))"

section \<open>Notions used to state the properties\<close>






text \<open>Every row of a table has one cell per column.\<close>

definition wf_frame :: "frame \<Rightarrow> bool" where
  "wf_frame df \<longleftrightarrow> (\<forall>r\<in>set (rows df). length r = length (columns df))"

text \<open>
  What the specification asks of the difference of a self value and a peer average:
  their difference when both are numbers, the missing marker when one is missing.
\<close>

definition spec_diff :: "cell \<Rightarrow> cell \<Rightarrow> cell" where
  "spec_diff s p = (case (s, p) of (Num x, Num y) \<Rightarrow> Num (x - y) | _ \<Rightarrow> NaN)"

text \<open>
  The roster has, for each of the given categories, the self column and the peer-average
  column, and neither holds a string (after the two processing stages they hold numbers
  and missing markers).
\<close>

definition operands_ok :: "frame \<Rightarrow> pystr list \<Rightarrow> bool" where
  "operands_ok gb cols \<longleftrightarrow>
     (\<forall>c\<in>set cols.
        (case get_col gb (Str (py ''SE: '' @ c)) of Inl e \<Rightarrow> False | Inr xs \<Rightarrow> \<forall>x\<in>set xs. \<not> is_str x)
      \<and> (case get_col gb (Str (c @ py '' (avg)'')) of Inl e \<Rightarrow> False | Inr xs \<Rightarrow> \<forall>x\<in>set xs. \<not> is_str x))"

section \<open>Example inputs\<close>

text \<open>
  A lexicon with two labels, and one that also gives points to the label \<open>na\<close>; the
  columns of a peer evaluation with one rating category and one comment; buckets for one
  subject: two rows, one row, two rows of which one has a blank rating, and two rows of
  which one has the rating \<open>na\<close>.
\<close>

definition example_lexicon :: lexicon where
  "example_lexicon = map_of [(Str (py ''Good''), 4), (Str (py ''Excellent''), 5)]"


definition example_pe_cols :: pe_cols where
  "example_pe_cols =
     \<lparr>general = [py ''PE: N''], comments = [py ''Comment''], rating = [py ''Work''],
      all_cols = [py ''PE: N'', py ''Comment'', py ''Work (avg)'', py ''Work (std)''],
      rating_avg = [py ''Work (avg)'', py ''Work (std)'']\<rparr>"

definition example_columns :: "cell list" where
  "example_columns = [Str (py ''review_row''), Str (py ''Name''), Str (py ''Work''), Str (py ''Comment'')]"


definition example_bucket_single :: frame where
  "example_bucket_single =
     \<lparr>columns = example_columns,
      rows = [[Num 0, Str (py ''Jane Doe''), Str (py ''Good''), Str (py ''ok'')]]\<rparr>"



definition example_ratings :: frame where
  "example_ratings =
     \<lparr>columns = [Str (py ''Work''), Str (py ''Effort'')],
      rows = [[Str (py ''Good''), Str (py ''Excellent'')],
              [Str (py ''Excellent''), Str (py ''Good'')]]\<rparr>"

definition example_ratings_unknown :: frame where
  "example_ratings_unknown =
     \<lparr>columns = [Str (py ''Work''), Str (py ''Effort'')],
      rows = [[Str (py ''Good''), Str (py ''Excellent'')],
              [Str (py ''Excellent''), Str (py ''Fine'')]]\<rparr>"

text \<open>
  A survey map with the self questions (section, team, email, name and one rating) and
  one peer slot (name, the same rating, a comment), and a roster after both processing
  stages, reduced to the columns of that rating.
\<close>

definition example_map :: survey_map where
  "example_map =
     [\<lparr>student = py ''self'', category = py ''section'', newhead = Some (py ''Section''),
       survey_column = py ''Your section''\<rparr>,
      \<lparr>student = py ''self'', category = py ''team'', newhead = Some (py ''Team''),
       survey_column = py ''Your team''\<rparr>,
      \<lparr>student = py ''self'', category = py ''email'', newhead = Some (py ''Email''),
       survey_column = py ''Your email''\<rparr>,
      \<lparr>student = py ''self'', category = py ''name'', newhead = Some (py ''Name''),
       survey_column = py ''Your name''\<rparr>,
      \<lparr>student = py ''self'', category = py ''rating'', newhead = Some (py ''Work''),
       survey_column = py ''Your work''\<rparr>,
      \<lparr>student = py ''peer1'', category = py ''name'', newhead = Some (py ''Peer''),
       survey_column = py ''Teammate name''\<rparr>,
      \<lparr>student = py ''peer1'', category = py ''rating'', newhead = Some (py ''Work''),
       survey_column = py ''Teammate work''\<rparr>,
      \<lparr>student = py ''peer1'', category = py ''comments'', newhead = Some (py ''Comment''),
       survey_column = py ''Teammate comment''\<rparr>]"

definition example_enriched :: frame where
  "example_enriched =
     \<lparr>columns = [Str (py ''Name''), Str (py ''SE: Work''), Str (py ''Work (avg)'')],
      rows = [[Str (py ''Jane Doe''), Num 5, Num 4.5],
              [Str (py ''John Roe''), Num 4, NaN],
              [Str (py ''Ann Poe''), NaN, Num 3]]\<rparr>"

text \<open>
  A roster of three people as \<open>prep_gradebook\<close> leaves it, and response tables with one
  response each: one whose author and teammate are in the roster; one whose teammate is
  not; one whose author gives an e-mail address unknown to the roster and a name spelt
  exactly as the roster has it.
\<close>

definition example_gradebook :: frame where
  "example_gradebook =
     \<lparr>columns = map (\<lambda>s. Str (py s))
                  [''Student'', ''ID'', ''SIS User ID'', ''SIS Login ID'', ''Root Account'',
                   ''Section'', ''Name''],
      rows = [[Str (py ''Doe, Jane''), Num 1, Str (py ''u1''), Str (py ''jdoe''),
               Str (py ''school''), Str (py ''A''), Str (py ''Jane Doe'')],
              [Str (py ''Roe, John''), Num 2, Str (py ''u2''), Str (py ''jroe''),
               Str (py ''school''), Str (py ''A''), Str (py ''John Roe'')],
              [Str (py ''McDonald, Mary''), Num 3, Str (py ''u3''), Str (py ''mmcdonald''),
               Str (py ''school''), Str (py ''A''), Str (py ''Mary McDonald'')]]\<rparr>"

definition example_response_columns :: "cell list" where
  "example_response_columns =
     map (\<lambda>s. Str (py s))
       [''Your section'', ''Your team'', ''Your email'', ''Your name'', ''Your work'',
        ''Teammate name'', ''Teammate work'', ''Teammate comment'']"

definition example_responses :: frame where
  "example_responses =
     \<lparr>columns = example_response_columns,
      rows = [[Str (py ''A''), Str (py ''T1''), Str (py ''JDoe@school.edu''), Str (py ''Jane Doe''),
               Str (py ''Excellent''), Str (py ''John Roe''), Str (py ''Good''), Str (py ''ok'')]]\<rparr>"

definition example_responses_unknown_peer :: frame where
  "example_responses_unknown_peer =
     \<lparr>columns = example_response_columns,
      rows = [[Str (py ''A''), Str (py ''T1''), Str (py ''jdoe@school.edu''), Str (py ''Jane Doe''),
               Str (py ''Excellent''), Str (py ''Jon Row''), Str (py ''Good''), Str (py ''ok'')]]\<rparr>"

definition example_responses_mcdonald :: frame where
  "example_responses_mcdonald =
     \<lparr>columns = example_response_columns,
      rows = [[Str (py ''A''), Str (py ''T1''), Str (py ''mary@other.org''),
               Str (py ''Mary McDonald''), Str (py ''Good''), Str (py ''John Roe''),
               Str (py ''Good''), Str (py ''ok'')]]\<rparr>"

text \<open>The map without its question for the e-mail address of the author.\<close>

definition example_map_no_email :: survey_map where
  "example_map_no_email = filter (\<lambda>e. category e \<noteq> py ''email'') example_map"

text \<open>A response whose teammate is named exactly as the roster has her.\<close>

definition example_responses_peer_mcdonald :: frame where
  "example_responses_peer_mcdonald =
     \<lparr>columns = example_response_columns,
      rows = [[Str (py ''A''), Str (py ''T1''), Str (py ''jdoe@school.edu''), Str (py ''Jane Doe''),
               Str (py ''Excellent''), Str (py ''Mary McDonald''), Str (py ''Good''),
               Str (py ''ok'')]]\<rparr>"

text \<open>The roster with the four columns of the peer evaluation, all of them missing or filled for one person.\<close>

definition example_pe_labels :: "cell list" where
  "example_pe_labels =
     map (\<lambda>s. Str (py s)) [''PE: N'', ''Comment'', ''Work (avg)'', ''Work (std)'']"

definition example_gradebook_no_peer :: frame where
  "example_gradebook_no_peer =
     \<lparr>columns = columns example_gradebook @ example_pe_labels,
      rows = map (\<lambda>r. r @ [NaN, NaN, NaN, NaN]) (rows example_gradebook)\<rparr>"

definition example_gradebook_peer_mcdonald :: frame where
  "example_gradebook_peer_mcdonald =
     \<lparr>columns = columns example_gradebook @ example_pe_labels,
      rows = [rows example_gradebook ! 0 @ [NaN, NaN, NaN, NaN],
              rows example_gradebook ! 1 @ [NaN, NaN, NaN, NaN],
              rows example_gradebook ! 2 @ [Num 1, Str (py ''ok''), Num 4, NaN]]\<rparr>"

section \<open>Properties of the string functions\<close>










































section \<open>Properties of the rating conversion\<close>

lemma convert_row_unmapped:
  "\<exists>x\<in>set r. mp x = None \<Longrightarrow> convert_row mp r = Inl KeyError"
proof (induction r)
  case Nil then show ?case by simp
next
  case (Cons x xs)
  show ?case
  proof (cases "mp x")
    case None then show ?thesis by simp
  next
    case (Some v)
    with Cons.prems have "\<exists>y\<in>set xs. mp y = None" by auto
    then have "convert_row mp xs = Inl KeyError" by (rule Cons.IH)
    with Some show ?thesis by simp
  qed
qed

lemma convert_row_mapped:
  "\<forall>x\<in>set r. mp x \<noteq> None \<Longrightarrow> convert_row mp r = Inr (map (\<lambda>x. Num (the (mp x))) r)"
  by (induction r) auto

lemma convert_rows_unmapped:
  "\<exists>r\<in>set rs. \<exists>x\<in>set r. mp x = None \<Longrightarrow> convert_rows mp rs = Inl KeyError"
proof (induction rs)
  case Nil then show ?case by simp
next
  case (Cons r rs)
  show ?case
  proof (cases "\<exists>x\<in>set r. mp x = None")
    case True
    then show ?thesis by (simp add: convert_row_unmapped)
  next
    case False
    then have r: "convert_row mp r = Inr (map (\<lambda>x. Num (the (mp x))) r)"
      by (intro convert_row_mapped) auto
    from False Cons.prems have "\<exists>r\<in>set rs. \<exists>x\<in>set r. mp x = None" by auto
    then have "convert_rows mp rs = Inl KeyError" by (rule Cons.IH)
    with r show ?thesis by simp
  qed
qed

lemma convert_rows_mapped:
  "\<forall>r\<in>set rs. \<forall>x\<in>set r. mp x \<noteq> None \<Longrightarrow>
     convert_rows mp rs = Inr (map (map (\<lambda>x. Num (the (mp x)))) rs)"
  by (induction rs) (auto simp: convert_row_mapped)

lemma convert_ratings_mapped:
  "\<forall>r\<in>set (rows t). \<forall>x\<in>set r. mp x \<noteq> None \<Longrightarrow>
     convert_ratings mp t = Inr (t\<lparr>rows := map (map (\<lambda>x. Num (the (mp x)))) (rows t)\<rparr>)"
  by (simp add: convert_ratings_def convert_rows_mapped)

lemma convert_ratings_unmapped:
  "\<exists>r\<in>set (rows t). \<exists>x\<in>set r. mp x = None \<Longrightarrow> convert_ratings mp t = Inl KeyError"
  by (simp add: convert_ratings_def convert_rows_unmapped)

text \<open>
  C6. \<open>convert_ratings\<close> works cell by cell: it fails with \<open>KeyError\<close> (a \<open>LookupError\<close>)
  whenever some cell has no entry in the lexicon, inventing no value, and when every cell
  has an entry it returns a table with the same column labels, the same number of rows and
  the same row lengths, each cell holding the points of the label that was there.
\<close>

theorem convert_ratings_contract:
  "((\<exists>r\<in>set (rows t). \<exists>x\<in>set r. mp x = None) \<longrightarrow> convert_ratings mp t = Inl KeyError)
   \<and> ((\<forall>r\<in>set (rows t). \<forall>x\<in>set r. mp x \<noteq> None) \<longrightarrow>
        (\<exists>t'. convert_ratings mp t = Inr t'
           \<and> columns t' = columns t
           \<and> length (rows t') = length (rows t)
           \<and> (\<forall>i<length (rows t). length (rows t' ! i) = length (rows t ! i)
                \<and> (\<forall>j<length (rows t ! i).
                      \<exists>v. mp (rows t ! i ! j) = Some v \<and> rows t' ! i ! j = Num v))))"
proof (intro conjI impI)
  assume "\<exists>r\<in>set (rows t). \<exists>x\<in>set r. mp x = None"
  then show "convert_ratings mp t = Inl KeyError" by (rule convert_ratings_unmapped)
next
  assume all: "\<forall>r\<in>set (rows t). \<forall>x\<in>set r. mp x \<noteq> None"
  let ?t' = "t\<lparr>rows := map (map (\<lambda>x. Num (the (mp x)))) (rows t)\<rparr>"
  have c: "convert_ratings mp t = Inr ?t'" using all by (rule convert_ratings_mapped)
  have cells: "\<exists>v. mp (rows t ! i ! j) = Some v \<and> rows ?t' ! i ! j = Num v"
    if "i < length (rows t)" "j < length (rows t ! i)" for i j
  proof -
    have "rows t ! i \<in> set (rows t)" "rows t ! i ! j \<in> set (rows t ! i)" using that by simp_all
    with all have "mp (rows t ! i ! j) \<noteq> None" by blast
    then show ?thesis using that by auto
  qed
  show "\<exists>t'. convert_ratings mp t = Inr t'
           \<and> columns t' = columns t
           \<and> length (rows t') = length (rows t)
           \<and> (\<forall>i<length (rows t). length (rows t' ! i) = length (rows t ! i)
                \<and> (\<forall>j<length (rows t ! i).
                      \<exists>v. mp (rows t ! i ! j) = Some v \<and> rows t' ! i ! j = Num v))"
    using c cells by (intro exI [of _ ?t']) simp
qed

theorem convert_ratings_contract_witness:
  "convert_ratings example_lexicon example_ratings_unknown = Inl KeyError
   \<and> (\<exists>t'. convert_ratings example_lexicon example_ratings = Inr t'
         \<and> columns t' = columns example_ratings
         \<and> length (rows t') = length (rows example_ratings)
         \<and> rows t' ! 0 ! 0 = Num 4)"
proof -
  have 1: "\<exists>r\<in>set (rows example_ratings_unknown). \<exists>x\<in>set r. example_lexicon x = None"
    by (simp add: example_ratings_unknown_def example_lexicon_def)
  have 2: "\<forall>r\<in>set (rows example_ratings). \<forall>x\<in>set r. example_lexicon x \<noteq> None"
    by (simp add: example_ratings_def example_lexicon_def)
  have a: "convert_ratings example_lexicon example_ratings_unknown = Inl KeyError"
    using convert_ratings_contract [of example_ratings_unknown example_lexicon] 1 by blast
  from convert_ratings_contract [of example_ratings example_lexicon] 2 obtain t' where
    t': "convert_ratings example_lexicon example_ratings = Inr t'"
        "columns t' = columns example_ratings"
        "length (rows t') = length (rows example_ratings)"
        "\<forall>i<length (rows example_ratings). length (rows t' ! i) = length (rows example_ratings ! i)
           \<and> (\<forall>j<length (rows example_ratings ! i).
                 \<exists>v. example_lexicon (rows example_ratings ! i ! j) = Some v \<and> rows t' ! i ! j = Num v)"
    by blast
  have r0: "0 < length (rows example_ratings)" and c0: "0 < length (rows example_ratings ! 0)"
    by (simp_all add: example_ratings_def)
  from t'(4) r0 have "\<forall>j<length (rows example_ratings ! 0).
      \<exists>v. example_lexicon (rows example_ratings ! 0 ! j) = Some v \<and> rows t' ! 0 ! j = Num v"
    by blast
  with c0 have "\<exists>v. example_lexicon (rows example_ratings ! 0 ! 0) = Some v \<and> rows t' ! 0 ! 0 = Num v"
    by blast
  then have "rows t' ! 0 ! 0 = Num 4"
    by (simp add: example_ratings_def example_lexicon_def)
  with a t' show ?thesis by blast
qed

section \<open>Properties of the aggregation reducer\<close>


lemma col_index_Some: "col_index cs l = Some j \<Longrightarrow> j < length cs \<and> cs ! j = l"
  by (induction cs arbitrary: j) (auto split: if_splits)

lemma col_index_Some_mem: "col_index cs l = Some j \<Longrightarrow> l \<in> set cs"
  using col_index_Some [of cs l j] by auto

lemma col_index_None: "col_index cs l = None \<longleftrightarrow> l \<notin> set cs"
  by (induction cs) auto

lemma col_index_append: "l \<in> set cs \<Longrightarrow> col_index (cs @ ds) l = col_index cs l"
  by (induction cs) auto

lemma col_index_append_new: "l \<notin> set cs \<Longrightarrow> col_index (cs @ [l]) l = Some (length cs)"
  by (induction cs) auto

lemma col_index_append_other:
  "l' \<noteq> l \<Longrightarrow> l' \<notin> set cs \<Longrightarrow> col_index (cs @ [l]) l' = None"
  by (simp add: col_index_None)

lemma col_index_inj: "col_index cs l = Some j \<Longrightarrow> col_index cs l' = Some j \<Longrightarrow> l = l'"
  using col_index_Some by blast









lemma col_indices_Inr:
  "col_indices cs ls = Inr js \<Longrightarrow> js = map (\<lambda>l. the (col_index cs l)) ls \<and> (\<forall>l\<in>set ls. l \<in> set cs)"
proof (induction ls arbitrary: js)
  case Nil then show ?case by simp
next
  case (Cons l ls)
  then show ?case
    by (auto split: option.splits sum.splits dest: col_index_Some_mem)
qed




lemma get_col_length: "get_col df l = Inr cs \<Longrightarrow> length cs = length (rows df)"
  by (auto simp: get_col_def split: option.splits)






















section \<open>Properties of the discrepancy calculator\<close>

lemma series_sub_ok:
  "\<forall>x\<in>set xs. \<not> is_str x \<Longrightarrow> \<forall>y\<in>set ys. \<not> is_str y \<Longrightarrow> length xs = length ys \<Longrightarrow>
     series_sub xs ys = Inr (map2 spec_diff xs ys)"
proof (induction xs ys rule: list_induct2')
  case (4 x xs y ys)
  then have "cell_sub x y = Inr (spec_diff x y)"
    by (cases x; cases y) (auto simp: spec_diff_def)
  with 4 show ?case by simp
qed simp_all

lemma wf_set_col: "wf_frame df \<Longrightarrow> wf_frame (set_col df l vs)"
  by (auto simp: wf_frame_def set_col_def split: option.splits dest: set_zip_leftD)

lemma length_rows_set_col:
  "length vs = length (rows df) \<Longrightarrow> length (rows (set_col df l vs)) = length (rows df)"
  by (auto simp: set_col_def split: option.splits)

lemma map_zip_upd_nth:
  "\<forall>r\<in>set rs. j < length r \<Longrightarrow> length vs = length rs \<Longrightarrow>
     map (\<lambda>r. r ! j) (map (\<lambda>(r, v). r[j := v]) (zip rs vs)) = vs"
  by (induction rs vs rule: list_induct2') auto

lemma map_zip_upd_other:
  "j' \<noteq> j \<Longrightarrow> length vs = length rs \<Longrightarrow>
     map (\<lambda>r. r ! j') (map (\<lambda>(r, v). r[j := v]) (zip rs vs)) = map (\<lambda>r. r ! j') rs"
  by (induction rs vs rule: list_induct2') auto

lemma map_zip_app_nth:
  "\<forall>r\<in>set rs. length r = n \<Longrightarrow> length vs = length rs \<Longrightarrow>
     map (\<lambda>r. r ! n) (map (\<lambda>(r, v). r @ [v]) (zip rs vs)) = vs"
  by (induction rs vs rule: list_induct2') auto

lemma map_zip_app_other:
  "\<forall>r\<in>set rs. j < length r \<Longrightarrow> length vs = length rs \<Longrightarrow>
     map (\<lambda>r. r ! j) (map (\<lambda>(r, v). r @ [v]) (zip rs vs)) = map (\<lambda>r. r ! j) rs"
  by (induction rs vs rule: list_induct2') (auto simp: nth_append)

lemma get_col_set_col:
  assumes wf: "wf_frame df" and len: "length vs = length (rows df)"
  shows "get_col (set_col df l vs) l' = (if l' = l then Inr vs else get_col df l')"
proof (cases "col_index (columns df) l")
  case None
  then have nl: "l \<notin> set (columns df)" by (simp add: col_index_None)
  have rl: "\<forall>r\<in>set (rows df). length r = length (columns df)" using wf by (simp add: wf_frame_def)
  show ?thesis
  proof (cases "l' = l")
    case True
    then show ?thesis using None nl map_zip_app_nth [OF rl len]
      by (simp add: get_col_def set_col_def col_index_append_new)
  next
    case False
    show ?thesis
    proof (cases "col_index (columns df) l'")
      case None': None
      then have "col_index (columns df @ [l]) l' = None" using False by (simp add: col_index_None)
      then show ?thesis using None None' False by (simp add: get_col_def set_col_def)
    next
      case (Some j)
      then have j: "j < length (columns df)" using col_index_Some by blast
      then have rj: "\<forall>r\<in>set (rows df). j < length r" using rl by simp
      have "col_index (columns df @ [l]) l' = Some j"
        using Some col_index_Some_mem [OF Some] by (simp add: col_index_append)
      then show ?thesis using None Some False map_zip_app_other [OF rj len]
        by (simp add: get_col_def set_col_def)
    qed
  qed
next
  case (Some j)
  then have j: "j < length (columns df)" using col_index_Some by blast
  then have rj: "\<forall>r\<in>set (rows df). j < length r" using wf by (simp add: wf_frame_def)
  show ?thesis
  proof (cases "l' = l")
    case True
    then show ?thesis using Some map_zip_upd_nth [OF rj len]
      by (simp add: get_col_def set_col_def)
  next
    case False
    show ?thesis
    proof (cases "col_index (columns df) l'")
      case None
      then show ?thesis using Some False by (simp add: get_col_def set_col_def)
    next
      case Some': (Some j')
      then have "j' \<noteq> j" using Some False col_index_inj by blast
      then show ?thesis using Some Some' False map_zip_upd_other [OF _ len]
        by (simp add: get_col_def set_col_def)
    qed
  qed
qed

lemma diff_labels:
  "py ''SE-PE: '' @ c \<noteq> py ''SE: '' @ c'"
  "py ''SE-PE: '' @ c = py ''SE-PE: '' @ c' \<longleftrightarrow> c = c'"
  by simp_all

lemma operands_okD:
  assumes "operands_ok gb cols" and "c \<in> set cols"
  shows "\<exists>se pe. get_col gb (Str (py ''SE: '' @ c)) = Inr se
           \<and> get_col gb (Str (c @ py '' (avg)'')) = Inr pe
           \<and> (\<forall>x\<in>set se. \<not> is_str x) \<and> (\<forall>x\<in>set pe. \<not> is_str x)"
proof -
  from assms have
    a: "case get_col gb (Str (py ''SE: '' @ c)) of Inl e \<Rightarrow> False | Inr xs \<Rightarrow> \<forall>x\<in>set xs. \<not> is_str x"
    and b: "case get_col gb (Str (c @ py '' (avg)'')) of Inl e \<Rightarrow> False | Inr xs \<Rightarrow> \<forall>x\<in>set xs. \<not> is_str x"
    unfolding operands_ok_def by blast+
  from a obtain se where se: "get_col gb (Str (py ''SE: '' @ c)) = Inr se" "\<forall>x\<in>set se. \<not> is_str x"
    by (cases "get_col gb (Str (py ''SE: '' @ c))") auto
  from b obtain pe where pe: "get_col gb (Str (c @ py '' (avg)'')) = Inr pe" "\<forall>x\<in>set pe. \<not> is_str x"
    by (cases "get_col gb (Str (c @ py '' (avg)''))") auto
  from se pe show ?thesis by blast
qed

lemma calc_differences_loop_result:
  assumes "wf_frame gb" and "operands_ok gb cols"
    and "\<forall>c\<in>set cols. \<forall>c'\<in>set cols. py ''SE-PE: '' @ c \<noteq> c' @ py '' (avg)''"
  shows "\<exists>gb'. calc_differences_loop gb cols = Inr gb' \<and> wf_frame gb'
           \<and> length (rows gb') = length (rows gb)
           \<and> (\<forall>c\<in>set cols. get_col gb' (Str (py ''SE-PE: '' @ c)) =
                 Inr (map2 spec_diff (projr (get_col gb (Str (py ''SE: '' @ c))))
                                     (projr (get_col gb (Str (c @ py '' (avg)''))))))
           \<and> (\<forall>l. l \<notin> (\<lambda>c. Str (py ''SE-PE: '' @ c)) ` set cols \<longrightarrow> get_col gb' l = get_col gb l)"
  using assms
proof (induction cols arbitrary: gb)
  case Nil
  then show ?case by simp
next
  case (Cons c cols)
  have "c \<in> set (c # cols)" by simp
  from operands_okD [OF Cons.prems(2) this] obtain se pe where
    se: "get_col gb (Str (py ''SE: '' @ c)) = Inr se" and pe: "get_col gb (Str (c @ py '' (avg)'')) = Inr pe"
    and ns: "\<forall>x\<in>set se. \<not> is_str x" "\<forall>x\<in>set pe. \<not> is_str x"
    by (elim exE conjE)
  have len: "length se = length (rows gb)" "length pe = length (rows gb)"
    using se pe get_col_length by blast+
  let ?d = "map2 spec_diff se pe"
  have sub: "series_sub se pe = Inr ?d" using ns len by (intro series_sub_ok) auto
  let ?gb1 = "set_col gb (Str (py ''SE-PE: '' @ c)) ?d"
  have dl: "length ?d = length (rows gb)" using len by simp
  have step: "calc_differences_loop gb (c # cols) = calc_differences_loop ?gb1 cols"
    using se pe sub by simp
  have wf1: "wf_frame ?gb1" using Cons.prems(1) by (rule wf_set_col)
  have g1: "get_col ?gb1 l = (if l = Str (py ''SE-PE: '' @ c) then Inr ?d else get_col gb l)" for l
    using get_col_set_col [OF Cons.prems(1) dl] by simp
  have same: "get_col ?gb1 (Str (py ''SE: '' @ c')) = get_col gb (Str (py ''SE: '' @ c'))"
             "get_col ?gb1 (Str (c' @ py '' (avg)'')) = get_col gb (Str (c' @ py '' (avg)''))"
    if "c' \<in> set (c # cols)" for c'
    using g1 diff_labels(1) [of c c'] Cons.prems(3) that by auto
  have ok1: "operands_ok ?gb1 cols"
    using Cons.prems(2) same unfolding operands_ok_def by simp
  have nc1: "\<forall>c\<in>set cols. \<forall>c'\<in>set cols. py ''SE-PE: '' @ c \<noteq> c' @ py '' (avg)''"
    using Cons.prems(3) by simp
  from Cons.IH [OF wf1 ok1 nc1] obtain gb' where
    r: "calc_differences_loop ?gb1 cols = Inr gb'" "wf_frame gb'"
       "length (rows gb') = length (rows ?gb1)"
    and vals: "\<forall>c\<in>set cols. get_col gb' (Str (py ''SE-PE: '' @ c)) =
                 Inr (map2 spec_diff (projr (get_col ?gb1 (Str (py ''SE: '' @ c))))
                                     (projr (get_col ?gb1 (Str (c @ py '' (avg)'')))))"
    and others: "\<forall>l. l \<notin> (\<lambda>c. Str (py ''SE-PE: '' @ c)) ` set cols \<longrightarrow> get_col gb' l = get_col ?gb1 l"
    by blast
  have lr: "length (rows gb') = length (rows gb)"
    using r(3) length_rows_set_col [OF dl] by simp
  have vals': "get_col gb' (Str (py ''SE-PE: '' @ c')) =
                 Inr (map2 spec_diff (projr (get_col gb (Str (py ''SE: '' @ c'))))
                                     (projr (get_col gb (Str (c' @ py '' (avg)'')))))"
    if "c' \<in> set (c # cols)" for c'
  proof (cases "c' \<in> set cols")
    case True
    then show ?thesis using vals same [OF that] by simp
  next
    case False
    with that have cc: "c' = c" by simp
    have "Str (py ''SE-PE: '' @ c) \<notin> (\<lambda>c. Str (py ''SE-PE: '' @ c)) ` set cols"
      using False cc by auto
    then have "get_col gb' (Str (py ''SE-PE: '' @ c)) = get_col ?gb1 (Str (py ''SE-PE: '' @ c))"
      using others by blast
    then show ?thesis using g1 se pe cc by simp
  qed
  have others': "get_col gb' l = get_col gb l"
    if "l \<notin> (\<lambda>c. Str (py ''SE-PE: '' @ c)) ` set (c # cols)" for l
  proof -
    from that have "l \<noteq> Str (py ''SE-PE: '' @ c)" "l \<notin> (\<lambda>c. Str (py ''SE-PE: '' @ c)) ` set cols"
      by auto
    then show ?thesis using others g1 by simp
  qed
  show ?case using step r(1,2) lr vals' others' by (intro exI [of _ gb']) auto
qed

text \<open>
  C7. For every rating category in both the self and the peer rating columns of the map,
  \<open>calc_differences\<close> writes, for each roster record, the self value minus the peer average
  under the label \<open>'SE-PE: ' + category\<close>; where either operand is the missing marker the
  difference is the missing marker. The roster is one with both operand columns for the
  matched categories, holding numbers and missing markers, and no difference label is the
  label of a peer average. The column written does not depend on the order in which the
  loop visits the matched categories.
\<close>

theorem calc_differences_self_minus_peer:
  assumes "first_peer sm = Inr fp"
    and "se_cols = find_columns sm (py ''self'') (py ''rating'') Newhead None None"
    and "pe_cols = find_columns sm fp (py ''rating'') Newhead None None"
    and "wf_frame grade_book"
    and "operands_ok grade_book (filter (\<lambda>c. c \<in> set pe_cols) se_cols)"
    and "\<forall>c\<in>set se_cols \<inter> set pe_cols. \<forall>c'\<in>set se_cols \<inter> set pe_cols.
           py ''SE-PE: '' @ c \<noteq> c' @ py '' (avg)''"
    and "col \<in> set se_cols \<inter> set pe_cols"
  shows "\<exists>gb' se pe d.
           calc_differences grade_book sm = Inr gb'
         \<and> get_col grade_book (Str (py ''SE: '' @ col)) = Inr se
         \<and> get_col grade_book (Str (col @ py '' (avg)'')) = Inr pe
         \<and> get_col gb' (Str (py ''SE-PE: '' @ col)) = Inr d
         \<and> length d = length (rows grade_book)
         \<and> (\<forall>i<length d.
               (\<forall>x y. se ! i = Num x \<and> pe ! i = Num y \<longrightarrow> d ! i = Num (x - y))
             \<and> (se ! i = NaN \<or> pe ! i = NaN \<longrightarrow> d ! i = NaN))
         \<and> (\<forall>order. set order = set se_cols \<inter> set pe_cols \<longrightarrow>
               (\<exists>gb''. calc_differences_loop grade_book order = Inr gb''
                   \<and> get_col gb'' (Str (py ''SE-PE: '' @ col)) = Inr d))"
proof -
  let ?m = "remdups (filter (\<lambda>c. c \<in> set pe_cols) se_cols)"
  have sm: "set ?m = set se_cols \<inter> set pe_cols" by auto
  have ok: "operands_ok grade_book ?m" using assms(5) by (simp add: operands_ok_def)
  have nc: "\<forall>c\<in>set ?m. \<forall>c'\<in>set ?m. py ''SE-PE: '' @ c \<noteq> c' @ py '' (avg)''"
    using assms(6) unfolding sm by blast
  have cd: "calc_differences grade_book sm = calc_differences_loop grade_book ?m"
    using assms(1-3) by (simp add: calc_differences_def Let_def)
  from calc_differences_loop_result [OF assms(4) ok nc] obtain gb' where
    r: "calc_differences_loop grade_book ?m = Inr gb'"
    and vals: "\<forall>c\<in>set ?m. get_col gb' (Str (py ''SE-PE: '' @ c)) =
                 Inr (map2 spec_diff (projr (get_col grade_book (Str (py ''SE: '' @ c))))
                                     (projr (get_col grade_book (Str (c @ py '' (avg)'')))))"
    by blast
  have cm: "col \<in> set ?m" using assms(7) sm by blast
  from operands_okD [OF ok cm] obtain se pe where
    se: "get_col grade_book (Str (py ''SE: '' @ col)) = Inr se"
    and pe: "get_col grade_book (Str (col @ py '' (avg)'')) = Inr pe"
    by (elim exE conjE)
  have len: "length se = length (rows grade_book)" "length pe = length (rows grade_book)"
    using se pe get_col_length by blast+
  let ?d = "map2 spec_diff se pe"
  have d: "get_col gb' (Str (py ''SE-PE: '' @ col)) = Inr ?d" using vals cm se pe by simp
  have ld: "length ?d = length (rows grade_book)" using len by simp
  have cells: "(\<forall>x y. se ! i = Num x \<and> pe ! i = Num y \<longrightarrow> ?d ! i = Num (x - y))
             \<and> (se ! i = NaN \<or> pe ! i = NaN \<longrightarrow> ?d ! i = NaN)" if "i < length ?d" for i
  proof -
    have "?d ! i = spec_diff (se ! i) (pe ! i)" using that by simp
    then show ?thesis by (auto simp: spec_diff_def split: cell.splits)
  qed
  have any: "\<exists>gb''. calc_differences_loop grade_book order = Inr gb''
                   \<and> get_col gb'' (Str (py ''SE-PE: '' @ col)) = Inr ?d"
    if "set order = set se_cols \<inter> set pe_cols" for order
  proof -
    have ok': "operands_ok grade_book order"
      using ok that sm by (simp add: operands_ok_def)
    have nc': "\<forall>c\<in>set order. \<forall>c'\<in>set order. py ''SE-PE: '' @ c \<noteq> c' @ py '' (avg)''"
      using assms(6) that by blast
    from calc_differences_loop_result [OF assms(4) ok' nc'] obtain gb'' where
      "calc_differences_loop grade_book order = Inr gb''"
      "\<forall>c\<in>set order. get_col gb'' (Str (py ''SE-PE: '' @ c)) =
                 Inr (map2 spec_diff (projr (get_col grade_book (Str (py ''SE: '' @ c))))
                                     (projr (get_col grade_book (Str (c @ py '' (avg)'')))))"
      by blast
    moreover have "col \<in> set order" using assms(7) that by simp
    ultimately show ?thesis using se pe by auto
  qed
  show ?thesis using cd r se pe d ld cells any
    by (intro exI [of _ gb'] exI [of _ se] exI [of _ pe] exI [of _ ?d]) simp
qed


lemma example_map_facts:
  "first_peer example_map = Inr (py ''peer1'')"
  "find_columns example_map (py ''self'') (py ''rating'') Newhead None None = [py ''Work'']"
  "find_columns example_map (py ''peer1'') (py ''rating'') Newhead None None = [py ''Work'']"
  by (simp_all add: example_map_def first_peer_def unique_peers_def index0_def find_columns_def
        map_col_value_def)

theorem calc_differences_self_minus_peer_witness:
  "\<exists>gb' d. calc_differences example_enriched example_map = Inr gb'
     \<and> get_col gb' (Str (py ''SE-PE: Work'')) = Inr d
     \<and> d ! 0 = Num 0.5 \<and> d ! 1 = NaN \<and> d ! 2 = NaN"
proof -
  have wf: "wf_frame example_enriched" by (simp add: wf_frame_def example_enriched_def)
  have ok: "operands_ok example_enriched
      (filter (\<lambda>c. c \<in> set [py ''Work'']) [py ''Work''])"
    by (simp add: operands_ok_def example_enriched_def get_col_def)
  have nc: "\<forall>c\<in>set [py ''Work''] \<inter> set [py ''Work''].
      \<forall>c'\<in>set [py ''Work''] \<inter> set [py ''Work'']. py ''SE-PE: '' @ c \<noteq> c' @ py '' (avg)''"
    by simp
  have col: "py ''Work'' \<in> set [py ''Work''] \<inter> set [py ''Work'']" by simp
  from calc_differences_self_minus_peer
    [OF example_map_facts(1) example_map_facts(2) [symmetric] example_map_facts(3) [symmetric]
        wf ok nc col]
  obtain gb' se pe d where
    r: "calc_differences example_enriched example_map = Inr gb'"
    and se: "get_col example_enriched (Str (py ''SE: '' @ py ''Work'')) = Inr se"
    and pe: "get_col example_enriched (Str (py ''Work'' @ py '' (avg)'')) = Inr pe"
    and d: "get_col gb' (Str (py ''SE-PE: '' @ py ''Work'')) = Inr d"
    and len: "length d = length (rows example_enriched)"
    and cells: "\<forall>i<length d.
               (\<forall>x y. se ! i = Num x \<and> pe ! i = Num y \<longrightarrow> d ! i = Num (x - y))
             \<and> (se ! i = NaN \<or> pe ! i = NaN \<longrightarrow> d ! i = NaN)"
    by (elim exE conjE)
  have se': "se = [Num 5, Num 4, NaN]" and pe': "pe = [Num 4.5, NaN, Num 3]"
    using se pe by (simp_all add: example_enriched_def get_col_def)
  have l3: "length d = 3" using len by (simp add: example_enriched_def)
  have i: "0 < length d" "1 < length d" "2 < length d" using l3 by simp_all
  from cells i(1) have "\<forall>x y. se ! 0 = Num x \<and> pe ! 0 = Num y \<longrightarrow> d ! 0 = Num (x - y)"
    by blast
  then have "se ! 0 = Num 5 \<and> pe ! 0 = Num 4.5 \<longrightarrow> d ! 0 = Num (5 - 4.5)" by blast
  then have d0: "d ! 0 = Num 0.5" unfolding se' pe' by simp
  from cells i(2) have "se ! 1 = NaN \<or> pe ! 1 = NaN \<longrightarrow> d ! 1 = NaN" by blast
  then have d1: "d ! 1 = NaN" unfolding se' pe' by simp
  from cells i(3) have "se ! 2 = NaN \<or> pe ! 2 = NaN \<longrightarrow> d ! 2 = NaN" by blast
  then have d2: "d ! 2 = NaN" unfolding se' pe' by simp
  show ?thesis using r d d0 d1 d2 by simp
qed

section \<open>Properties of the two processing stages\<close>

lemmas model_defs =
  process_self_evals_def process_peer_evals_def main_run_def self_eval_step_def peer_eval_step_def
  find_student_def r_info_item_def get_item_def in_NA_LIST_def prompt_operand_def
  call_split_email_def call_fix_name_def split_email_def fix_name_def strip_def isspace_def
  lower_def lower_cp_def title_cp_def index0_def
  find_columns_def map_col_value_def add_prefix_suffix_def unique_peers_def first_peer_def
  gen_pe_rating_columns_def
  select_cols_def get_col_def set_col_def set_col_const_def add_empty_cols_def
  assign_rows_def assign_cols_def col_of_def replace_empty_def eq_mask_def write_cells_def
  row_at_def convert_ratings_def NA_LIST_def GB_SID_def
  average_ratings_def loc_set0_def loc_get0_def mean_def stdev_def
  calc_differences_def Let_def enumerate_eq_zip

lemmas example_table_defs = example_gradebook_def example_responses_def example_map_def
  example_lexicon_def example_response_columns_def example_responses_unknown_peer_def
  example_responses_mcdonald_def example_map_no_email_def example_responses_peer_mcdonald_def
  example_pe_labels_def example_gradebook_no_peer_def example_gradebook_peer_mcdonald_def






text \<open>
  C1 is broken by the code on the peer path. For a response whose teammate is not in the
  roster, the fallback accepts the answer \<open>na\<close>, an element of \<open>NA_LIST\<close>, and returns it;
  \<open>process_peer_evals\<close> compares the result with \<open>'NA'\<close> only, looks \<open>na\<close> up among the names
  of the roster and raises \<open>KeyError\<close>. With the answer \<open>NA\<close> the response is skipped: the
  run returns, and the peer columns of the roster hold the missing marker. On the self
  path the fallback is handed a table instead of a row and raises before it asks.
\<close>

theorem peer_path_skip_sentinel_na_raises:
  "find_student example_gradebook example_map
     (Series example_response_columns (rows example_responses_unknown_peer ! 0))
     (py ''Jon Row'') [py ''na''] = Inr (py ''na'', [])
   \<and> process_peer_evals example_gradebook example_responses_unknown_peer example_map
       example_lexicon [py ''na''] = Inl KeyError
   \<and> process_peer_evals example_gradebook example_responses_unknown_peer example_map
       example_lexicon [py ''NA''] = Inr (example_gradebook_no_peer, [])
   \<and> find_student example_gradebook example_map (DataFrame example_responses_mcdonald)
       (py ''self'') [py ''NA''] = Inl ValueError"
  by (simp add: model_defs example_table_defs)

text \<open>
  C5 is broken by the code on the self path. The author of the response gives a name that
  is a display name of the roster, letter for letter, and an e-mail address the roster
  does not know. \<open>process_self_evals\<close> normalises the name before it looks it up, misses
  the roster entry and calls the interactive fallback (which raises). On the peer path
  the same name is looked up as it stands first, and is matched without a question to
  the operator.
\<close>

theorem self_path_normalizes_before_exact_match:
  "fix_name (py ''Mary McDonald'') = py ''Mary Mcdonald''
   \<and> process_self_evals example_gradebook example_responses_mcdonald example_map
       example_lexicon [py ''Mary McDonald''] = Inl ValueError
   \<and> process_peer_evals example_gradebook example_responses_peer_mcdonald example_map
       example_lexicon [] = Inr (example_gradebook_peer_mcdonald, [])"
  apply (simp add: model_defs example_table_defs)
  apply (simp add: round2_def round_half_even_def)
  done

section \<open>The reducer is a pure function\<close>

lemma convert_cells_st_others:
  "convert_cells_st mp r i js h = (res, h') \<Longrightarrow>
     length h' = length h \<and> (\<forall>x. x \<noteq> r \<longrightarrow> h' ! x = h ! x)"
proof (induction js arbitrary: h)
  case Nil
  then show ?case by simp
next
  case (Cons j js)
  show ?case
  proof (cases "mp (rows (h ! r) ! i ! j)")
    case None
    with Cons.prems show ?thesis by simp
  next
    case (Some v)
    with Cons.prems have
      "convert_cells_st mp r i js (h[r := set_cell (h ! r) i j (Num v)]) = (res, h')" by simp
    from Cons.IH [OF this] show ?thesis by simp
  qed
qed

lemma convert_cells_st_row:
  assumes "r < length h" and "i < length (rows (h ! r))"
    and "n = length (rows (h ! r) ! i)" and "k \<le> n"
  shows "case convert_row mp (drop k (rows (h ! r) ! i)) of
           Inl e \<Rightarrow> fst (convert_cells_st mp r i [k..<n] h) = Inl e
         | Inr vs \<Rightarrow> convert_cells_st mp r i [k..<n] h =
             (Inr (), h[r := (h ! r)\<lparr>rows := (rows (h ! r))[i := take k (rows (h ! r) ! i) @ vs]\<rparr>])"
  using assms
proof (induction "n - k" arbitrary: k h)
  case 0
  then have kn: "k = n" by simp
  let ?row = "rows (h ! r) ! i"
  have "(rows (h ! r))[i := ?row] = rows (h ! r)" by simp
  then have "h[r := (h ! r)\<lparr>rows := (rows (h ! r))[i := ?row]\<rparr>] = h" by simp
  then show ?case using kn 0 by simp
next
  case (Suc d)
  let ?row = "rows (h ! r) ! i"
  from Suc have kn: "k < n" by simp
  then have upt: "[k..<n] = k # [Suc k..<n]" by (simp add: upt_conv_Cons)
  have dr: "drop k ?row = ?row ! k # drop (Suc k) ?row"
    using kn Suc.prems(3) by (simp add: Cons_nth_drop_Suc)
  show ?case
  proof (cases "mp (?row ! k)")
    case None
    then show ?thesis using upt dr by simp
  next
    case (Some v)
    let ?h1 = "h[r := set_cell (h ! r) i k (Num v)]"
    have h1r: "?h1 ! r = set_cell (h ! r) i k (Num v)" using Suc.prems(1) by simp
    have row1: "rows (?h1 ! r) ! i = ?row[k := Num v]"
      using Suc.prems(1,2) by (simp add: set_cell_def)
    have p1: "r < length ?h1" using Suc.prems(1) by simp
    have p2: "i < length (rows (?h1 ! r))" using Suc.prems(1,2) by (simp add: set_cell_def)
    have p3: "n = length (rows (?h1 ! r) ! i)" using Suc.prems(3) by (simp add: row1)
    have p4: "Suc k \<le> n" using kn by simp
    have d: "d = n - Suc k" using Suc.hyps(2) by simp
    note IH = Suc.hyps(1) [OF d p1 p2 p3 p4]
    have dr1: "drop (Suc k) (rows (?h1 ! r) ! i) = drop (Suc k) ?row" by (simp add: row1)
    have tk1: "take (Suc k) (rows (?h1 ! r) ! i) = take k ?row @ [Num v]"
      using kn Suc.prems(3) by (simp add: row1 take_Suc_conv_app_nth)
    have step: "convert_cells_st mp r i [k..<n] h = convert_cells_st mp r i [Suc k..<n] ?h1"
      using upt Some by simp
    show ?thesis
    proof (cases "convert_row mp (drop (Suc k) ?row)")
      case (Inl e)
      with IH dr1 have "fst (convert_cells_st mp r i [Suc k..<n] ?h1) = Inl e" by simp
      then show ?thesis using step dr Some Inl by simp
    next
      case (Inr vs)
      with IH dr1 tk1 have
        "convert_cells_st mp r i [Suc k..<n] ?h1 =
           (Inr (), ?h1[r := (?h1 ! r)\<lparr>rows := (rows (?h1 ! r))[i := (take k ?row @ [Num v]) @ vs]\<rparr>])"
        by simp
      moreover have "?h1[r := (?h1 ! r)\<lparr>rows := (rows (?h1 ! r))[i := (take k ?row @ [Num v]) @ vs]\<rparr>]
           = h[r := (h ! r)\<lparr>rows := (rows (h ! r))[i := take k ?row @ Num v # vs]\<rparr>]"
        using Suc.prems(1) by (simp add: set_cell_def)
      ultimately show ?thesis using step dr Some Inr by simp
    qed
  qed
qed

lemma convert_rows_st_others:
  "convert_rows_st mp r idx h = (res, h') \<Longrightarrow>
     length h' = length h \<and> (\<forall>x. x \<noteq> r \<longrightarrow> h' ! x = h ! x)"
proof (induction idx arbitrary: h)
  case Nil
  then show ?case by simp
next
  case (Cons i idx)
  obtain res1 h1 where c: "convert_cells_st mp r i [0..<length (columns (h ! r))] h = (res1, h1)"
    by (cases "convert_cells_st mp r i [0..<length (columns (h ! r))] h")
  from convert_cells_st_others [OF c] have o1: "length h1 = length h" "\<forall>x. x \<noteq> r \<longrightarrow> h1 ! x = h ! x"
    by auto
  show ?case
  proof (cases res1)
    case (Inl e)
    with Cons.prems c have "h' = h1" by simp
    with o1 show ?thesis by simp
  next
    case (Inr u)
    with Cons.prems c have "convert_rows_st mp r idx h1 = (res, h')" by simp
    from Cons.IH [OF this] o1 show ?thesis by simp
  qed
qed

lemma convert_row_length: "convert_row mp r = Inr vs \<Longrightarrow> length vs = length r"
  by (induction r arbitrary: vs) (auto split: option.splits sum.splits)

lemma convert_rows_st_rows:
  assumes "r < length h" and "m = length (rows (h ! r))"
    and "\<forall>row\<in>set (rows (h ! r)). length row = length (columns (h ! r))"
    and "i \<le> m"
  shows "case convert_rows mp (drop i (rows (h ! r))) of
           Inl e \<Rightarrow> fst (convert_rows_st mp r [i..<m] h) = Inl e
         | Inr rs \<Rightarrow> convert_rows_st mp r [i..<m] h =
             (Inr (), h[r := (h ! r)\<lparr>rows := take i (rows (h ! r)) @ rs\<rparr>])"
  using assms
proof (induction "m - i" arbitrary: i h)
  case 0
  then have "i = m" by simp
  then show ?case using 0 by simp
next
  case (Suc d)
  let ?rows = "rows (h ! r)"
  let ?n = "length (columns (h ! r))"
  from Suc have im: "i < m" by simp
  then have upt: "[i..<m] = i # [Suc i..<m]" by (simp add: upt_conv_Cons)
  have il: "i < length ?rows" using im Suc.prems(2) by simp
  have dr: "drop i ?rows = ?rows ! i # drop (Suc i) ?rows" using il by (simp add: Cons_nth_drop_Suc)
  have rl: "?n = length (?rows ! i)" using Suc.prems(3) il by simp
  note cells = convert_cells_st_row [OF Suc.prems(1) il rl, of 0 mp]
  show ?case
  proof (cases "convert_row mp (?rows ! i)")
    case (Inl e)
    with cells have "fst (convert_cells_st mp r i [0..<?n] h) = Inl e" by simp
    then have "fst (convert_rows_st mp r [i..<m] h) = Inl e"
      unfolding upt by (cases "convert_cells_st mp r i [0..<?n] h") auto
    then show ?thesis using dr Inl by simp
  next
    case (Inr vs)
    let ?h1 = "h[r := (h ! r)\<lparr>rows := ?rows[i := vs]\<rparr>]"
    from cells Inr have c: "convert_cells_st mp r i [0..<?n] h = (Inr (), ?h1)" by simp
    have step: "convert_rows_st mp r [i..<m] h = convert_rows_st mp r [Suc i..<m] ?h1"
      unfolding upt using c by simp
    have vl: "length vs = ?n" using convert_row_length [OF Inr] rl by simp
    have rows1: "rows (?h1 ! r) = ?rows[i := vs]" and cols1: "columns (?h1 ! r) = columns (h ! r)"
      using Suc.prems(1) by simp_all
    have p1: "r < length ?h1" using Suc.prems(1) by simp
    have p2: "m = length (rows (?h1 ! r))" using Suc.prems(2) by (simp add: rows1)
    have p3: "\<forall>row\<in>set (rows (?h1 ! r)). length row = length (columns (?h1 ! r))"
      unfolding rows1 cols1 using Suc.prems(3) vl by (auto dest!: set_update_subset_insert [THEN subsetD])
    have p4: "Suc i \<le> m" using im by simp
    have d: "d = m - Suc i" using Suc.hyps(2) by simp
    note IH = Suc.hyps(1) [OF d p1 p2 p3 p4]
    have dr1: "drop (Suc i) (rows (?h1 ! r)) = drop (Suc i) ?rows" by (simp add: rows1)
    have tk1: "take (Suc i) (rows (?h1 ! r)) = take i ?rows @ [vs]"
      using il by (simp add: rows1 take_Suc_conv_app_nth)
    show ?thesis
    proof (cases "convert_rows mp (drop (Suc i) ?rows)")
      case Inl': (Inl e)
      with IH dr1 have "fst (convert_rows_st mp r [Suc i..<m] ?h1) = Inl e" by simp
      then show ?thesis using step dr Inr Inl' by simp
    next
      case Inr': (Inr rs)
      with IH dr1 tk1 have
        "convert_rows_st mp r [Suc i..<m] ?h1 =
           (Inr (), ?h1[r := (?h1 ! r)\<lparr>rows := (take i ?rows @ [vs]) @ rs\<rparr>])"
        by simp
      moreover have "?h1[r := (?h1 ! r)\<lparr>rows := (take i ?rows @ [vs]) @ rs\<rparr>]
          = h[r := (h ! r)\<lparr>rows := take i ?rows @ vs # rs\<rparr>]"
        using Suc.prems(1) by simp
      ultimately show ?thesis using step dr Inr Inr' by simp
    qed
  qed
qed

lemma convert_ratings_st_refines:
  assumes "a < length h" and "wf_frame (h ! a)"
  shows "case convert_ratings mp (h ! a) of
           Inl e \<Rightarrow> fst (convert_ratings_st mp a h) = Inl e
         | Inr t \<Rightarrow> convert_ratings_st mp a h = (Inr (length h), h @ [t])"
proof -
  let ?h1 = "h @ [h ! a]"
  let ?r = "length h"
  have r: "?r < length ?h1" by simp
  have hr: "?h1 ! ?r = h ! a" by simp
  have m: "length (rows (h ! a)) = length (rows (?h1 ! ?r))" by simp
  have wf: "\<forall>row\<in>set (rows (?h1 ! ?r)). length row = length (columns (?h1 ! ?r))"
    using assms(2) by (simp add: wf_frame_def)
  note rows = convert_rows_st_rows [OF r m wf, of 0 mp]
  have unf: "convert_ratings_st mp a h =
      (case convert_rows_st mp ?r [0..<length (rows (h ! a))] ?h1 of
         (Inl e, h2) \<Rightarrow> (Inl e, h2) | (Inr u, h2) \<Rightarrow> (Inr ?r, h2))"
    by (simp add: convert_ratings_st_def alloc_def)
  show ?thesis
  proof (cases "convert_rows mp (rows (h ! a))")
    case (Inl e)
    with rows have "fst (convert_rows_st mp ?r [0..<length (rows (h ! a))] ?h1) = Inl e" by simp
    then have "fst (convert_ratings_st mp a h) = Inl e"
      unfolding unf by (cases "convert_rows_st mp ?r [0..<length (rows (h ! a))] ?h1") auto
    then show ?thesis using Inl by (simp add: convert_ratings_def)
  next
    case (Inr rs)
    with rows have "convert_rows_st mp ?r [0..<length (rows (h ! a))] ?h1 =
        (Inr (), ?h1[?r := (h ! a)\<lparr>rows := rs\<rparr>])" by simp
    then have "convert_ratings_st mp a h = (Inr ?r, h @ [(h ! a)\<lparr>rows := rs\<rparr>])"
      unfolding unf by simp
    then show ?thesis using Inr by (simp add: convert_ratings_def)
  qed
qed

lemma convert_ratings_st_others:
  assumes "convert_ratings_st mp a h = (res, h')"
  shows "length h' = Suc (length h) \<and> (\<forall>x<length h. h' ! x = h ! x)"
proof -
  obtain res1 h2 where c:
    "convert_rows_st mp (length h) [0..<length (rows ((h @ [h ! a]) ! length h))] (h @ [h ! a]) = (res1, h2)"
    by (cases "convert_rows_st mp (length h) [0..<length (rows ((h @ [h ! a]) ! length h))] (h @ [h ! a])")
  from convert_rows_st_others [OF c] have
    o: "length h2 = Suc (length h)" "\<forall>x. x \<noteq> length h \<longrightarrow> h2 ! x = (h @ [h ! a]) ! x" by auto
  have "h' = h2" using assms c by (cases res1) (auto simp: convert_ratings_st_def alloc_def)
  with o show ?thesis by (auto simp: nth_append)
qed

lemma combine_comments_st_refines:
  assumes "a < length h" and "v < length h" and "a \<noteq> v"
  shows "\<exists>h'. length h' = length h \<and> (\<forall>x. x \<noteq> v \<longrightarrow> h' ! x = h ! x) \<and>
     (case combine_comments (h ! a) cols (h ! v) of
        Inl e \<Rightarrow> combine_comments_st a v cols h = (Inl e, h')
      | Inr avgs \<Rightarrow> combine_comments_st a v cols h = (Inr (), h') \<and> h' ! v = avgs)"
  using assms
proof (induction cols arbitrary: h)
  case Nil
  then show ?case by (intro exI [of _ h]) simp
next
  case (Cons c cols)
  show ?case
  proof (cases "get_col (h ! a) (Str c)")
    case (Inl e)
    then show ?thesis by (intro exI [of _ h]) simp
  next
    case (Inr cs)
    show ?thesis
    proof (cases "strs (filter (\<lambda>c. c \<notin> set NA_LIST) cs)")
      case (Inl e)
      with Inr show ?thesis by (intro exI [of _ h]) simp
    next
      case Inr': (Inr ss)
      let ?f = "set_col_const (h ! v) (Str c) (Str (join (py '' | '') ss))"
      let ?h1 = "h[v := ?f]"
      have a1: "?h1 ! a = h ! a" and v1: "?h1 ! v = ?f"
        using Cons.prems by simp_all
      have l1: "a < length ?h1" "v < length ?h1" using Cons.prems by simp_all
      from Cons.IH [OF l1 Cons.prems(3)] obtain h' where
        h': "length h' = length ?h1" "\<forall>x. x \<noteq> v \<longrightarrow> h' ! x = ?h1 ! x"
          "case combine_comments (?h1 ! a) cols (?h1 ! v) of
             Inl e \<Rightarrow> combine_comments_st a v cols ?h1 = (Inl e, h')
           | Inr avgs \<Rightarrow> combine_comments_st a v cols ?h1 = (Inr (), h') \<and> h' ! v = avgs"
        by blast
      have st: "combine_comments_st a v (c # cols) h = combine_comments_st a v cols ?h1"
        using Inr Inr' by simp
      have pu: "combine_comments (h ! a) (c # cols) (h ! v) = combine_comments (h ! a) cols ?f"
        using Inr Inr' by simp
      show ?thesis
        using h' unfolding st pu a1 v1 by (intro exI [of _ h']) simp
    qed
  qed
qed

lemma average_loop_st_refines:
  assumes "r < length h" and "v < length h" and "r \<noteq> v"
  shows "\<exists>h'. length h' = length h \<and> (\<forall>x. x \<noteq> v \<longrightarrow> h' ! x = h ! x) \<and>
     (case average_loop (h ! r) cs (h ! v) of
        Inl e \<Rightarrow> average_loop_st r v cs h = (Inl e, h')
      | Inr avgs \<Rightarrow> average_loop_st r v cs h = (Inr (), h') \<and> h' ! v = avgs)"
  using assms
proof (induction cs arbitrary: h)
  case Nil
  then show ?case by (intro exI [of _ h]) simp
next
  case (Cons c cs)
  note IH = Cons.IH [OF _ _ Cons.prems(3)]
  show ?case
  proof (cases "get_col (h ! r) (Str c)")
    case (Inl e)
    then show ?thesis by (intro exI [of _ h]) simp
  next
    case (Inr col)
    show ?thesis
    proof (cases "nums col")
      case (Inl e)
      with Inr show ?thesis by (intro exI [of _ h]) simp
    next
      case Inr2: (Inr xs)
      show ?thesis
      proof (cases "mean xs")
        case (Inl e)
        with Inr Inr2 show ?thesis by (intro exI [of _ h]) simp
      next
        case Inr3: (Inr m)
        let ?f1 = "set_col_const (h ! v) (Str (c @ py '' (avg)'')) (Num (round2 m))"
        let ?h1 = "h[v := ?f1]"
        have r1: "?h1 ! r = h ! r" and v1: "?h1 ! v = ?f1" using Cons.prems by simp_all
        have o1: "length ?h1 = length h" "\<forall>x. x \<noteq> v \<longrightarrow> ?h1 ! x = h ! x" by simp_all
        show ?thesis
        proof (cases "loc_get0 ?f1 (Str (py ''PE: N''))")
          case (Inl e)
          have "average_loop_st r v (c # cs) h = (Inl e, ?h1)"
            using Inr Inr2 Inr3 Inl v1 by (simp add: Let_def)
          moreover have "average_loop (h ! r) (c # cs) (h ! v) = Inl e"
            using Inr Inr2 Inr3 Inl by (simp add: Let_def)
          ultimately show ?thesis using o1 by (intro exI [of _ ?h1]) simp
        next
          case Inr4: (Inr n)
          show ?thesis
          proof (cases "n = Num 1")
            case True
            let ?f2 = "set_col_const ?f1 (Str (c @ py '' (std)'')) NaN"
            let ?h2 = "?h1[v := ?f2]"
            have r2: "?h2 ! r = h ! r" and v2: "?h2 ! v = ?f2" using Cons.prems by simp_all
            have l2: "r < length ?h2" "v < length ?h2" using Cons.prems by simp_all
            from IH [OF l2] obtain h' where
              h': "length h' = length ?h2" "\<forall>x. x \<noteq> v \<longrightarrow> h' ! x = ?h2 ! x"
                "case average_loop (?h2 ! r) cs (?h2 ! v) of
                   Inl e \<Rightarrow> average_loop_st r v cs ?h2 = (Inl e, h')
                 | Inr avgs \<Rightarrow> average_loop_st r v cs ?h2 = (Inr (), h') \<and> h' ! v = avgs"
              by blast
            have st: "average_loop_st r v (c # cs) h = average_loop_st r v cs ?h2"
              using Inr Inr2 Inr3 Inr4 True v1 by (simp add: Let_def)
            have pu: "average_loop (h ! r) (c # cs) (h ! v) = average_loop (h ! r) cs ?f2"
              using Inr Inr2 Inr3 Inr4 True by (simp add: Let_def)
            show ?thesis using h' unfolding st pu r2 v2 by (intro exI [of _ h']) simp
          next
            case False
            show ?thesis
            proof (cases "stdev xs")
              case (Inl e)
              have "average_loop_st r v (c # cs) h = (Inl e, ?h1)"
                using Inr Inr2 Inr3 Inr4 False Inl v1 by (simp add: Let_def)
              moreover have "average_loop (h ! r) (c # cs) (h ! v) = Inl e"
                using Inr Inr2 Inr3 Inr4 False Inl by (simp add: Let_def)
              ultimately show ?thesis using o1 by (intro exI [of _ ?h1]) simp
            next
              case Inr5: (Inr sd)
              let ?f2 = "set_col_const ?f1 (Str (c @ py '' (std)'')) (Num (round2 sd))"
              let ?h2 = "?h1[v := ?f2]"
              have r2: "?h2 ! r = h ! r" and v2: "?h2 ! v = ?f2" using Cons.prems by simp_all
              have l2: "r < length ?h2" "v < length ?h2" using Cons.prems by simp_all
              from IH [OF l2] obtain h' where
                h': "length h' = length ?h2" "\<forall>x. x \<noteq> v \<longrightarrow> h' ! x = ?h2 ! x"
                  "case average_loop (?h2 ! r) cs (?h2 ! v) of
                     Inl e \<Rightarrow> average_loop_st r v cs ?h2 = (Inl e, h')
                   | Inr avgs \<Rightarrow> average_loop_st r v cs ?h2 = (Inr (), h') \<and> h' ! v = avgs"
                by blast
              have st: "average_loop_st r v (c # cs) h = average_loop_st r v cs ?h2"
                using Inr Inr2 Inr3 Inr4 False Inr5 v1 by (simp add: Let_def)
              have pu: "average_loop (h ! r) (c # cs) (h ! v) = average_loop (h ! r) cs ?f2"
                using Inr Inr2 Inr3 Inr4 False Inr5 by (simp add: Let_def)
              show ?thesis using h' unfolding st pu r2 v2 by (intro exI [of _ h']) simp
            qed
          qed
        qed
      qed
    qed
  qed
qed

lemma select_cols_wf: "select_cols df ls = Inr sel \<Longrightarrow> wf_frame sel"
proof -
  assume "select_cols df ls = Inr sel"
  then obtain js where js: "col_indices (columns df) ls = Inr js"
    and sel: "sel = \<lparr>columns = ls, rows = map (\<lambda>r. map (\<lambda>j. r ! j) js) (rows df)\<rparr>"
    by (auto simp: select_cols_def split: sum.splits)
  from col_indices_Inr [OF js] have "length js = length ls" by simp
  then show ?thesis by (auto simp: wf_frame_def sel)
qed

lemma average_ratings_st_refines:
  assumes a: "a < length h"
  shows "\<exists>h'. length h \<le> length h' \<and> (\<forall>x<length h. h' ! x = h ! x) \<and>
     (case average_ratings (h ! a) pe mp of
        Inl e \<Rightarrow> average_ratings_st a pe mp h = (Inl e, h')
      | Inr avgs \<Rightarrow> (\<exists>v. average_ratings_st a pe mp h = (Inr v, h') \<and> v < length h' \<and> h' ! v = avgs))"
proof -
  let ?v = "length h"
  let ?avgs0 = "loc_set0 \<lparr>columns = map Str (all_cols pe), rows = []\<rparr> (Str (py ''PE: N''))
                  (Num (real (length (rows (h ! a)))))"
  let ?h2 = "h @ [?avgs0]"
  have h2: "(h @ [\<lparr>columns = map Str (all_cols pe), rows = []\<rparr>])
              [?v := loc_set0 ((h @ [\<lparr>columns = map Str (all_cols pe), rows = []\<rparr>]) ! ?v)
                       (Str (py ''PE: N''))
                       (Num (real (length (rows ((h @ [\<lparr>columns = map Str (all_cols pe), rows = []\<rparr>]) ! a)))))]
            = ?h2"
    using a by (simp add: nth_append)
  have unf: "average_ratings_st a pe mp h =
     (case combine_comments_st a ?v (comments pe) ?h2 of
        (Inl e, h3) \<Rightarrow> (Inl e, h3)
      | (Inr u, h3) \<Rightarrow>
          (case select_cols (h3 ! a) (map Str (rating pe)) of
             Inl e \<Rightarrow> (Inl e, h3)
           | Inr selected \<Rightarrow>
               (case alloc selected h3 of
                  (sel, h4) \<Rightarrow>
                    (case convert_ratings_st mp sel h4 of
                       (Inl e, h5) \<Rightarrow> (Inl e, h5)
                     | (Inr ratings, h5) \<Rightarrow>
                         (case average_loop_st ratings ?v (rating pe) h5 of
                            (Inl e, h6) \<Rightarrow> (Inl e, h6)
                          | (Inr u, h6) \<Rightarrow> (Inr ?v, h6))))))"
    unfolding average_ratings_st_def alloc_def Let_def prod.case h2 ..
  have pu: "average_ratings (h ! a) pe mp =
     (case combine_comments (h ! a) (comments pe) ?avgs0 of
        Inl e \<Rightarrow> Inl e
      | Inr avgs1 \<Rightarrow>
          (case select_cols (h ! a) (map Str (rating pe)) of
             Inl e \<Rightarrow> Inl e
           | Inr sel \<Rightarrow>
               (case convert_ratings mp sel of
                  Inl e \<Rightarrow> Inl e
                | Inr ratings \<Rightarrow> average_loop ratings (rating pe) avgs1)))"
    by (simp add: average_ratings_def Let_def)
  have a2: "a < length ?h2" "?v < length ?h2" "a \<noteq> ?v" using a by simp_all
  have h2a: "?h2 ! a = h ! a" and h2v: "?h2 ! ?v = ?avgs0" using a by (simp_all add: nth_append)
  from combine_comments_st_refines [OF a2, of "comments pe"] obtain h3 where
    l3: "length h3 = length ?h2" and o3: "\<forall>x. x \<noteq> ?v \<longrightarrow> h3 ! x = ?h2 ! x"
    and c3: "case combine_comments (h ! a) (comments pe) ?avgs0 of
               Inl e \<Rightarrow> combine_comments_st a ?v (comments pe) ?h2 = (Inl e, h3)
             | Inr avgs \<Rightarrow> combine_comments_st a ?v (comments pe) ?h2 = (Inr (), h3) \<and> h3 ! ?v = avgs"
    unfolding h2a h2v by blast
  have k3: "\<forall>x<length h. h3 ! x = h ! x" using o3 by (simp add: nth_append)
  have le3: "length h \<le> length h3" using l3 by simp
  show ?thesis
  proof (cases "combine_comments (h ! a) (comments pe) ?avgs0")
    case (Inl e)
    with c3 have "average_ratings_st a pe mp h = (Inl e, h3)" unfolding unf by simp
    then show ?thesis using Inl pu le3 k3 by (intro exI [of _ h3]) simp
  next
    case (Inr avgs1)
    with c3 have cc: "combine_comments_st a ?v (comments pe) ?h2 = (Inr (), h3)"
      and v3: "h3 ! ?v = avgs1" by simp_all
    have a3: "h3 ! a = h ! a" using k3 a by simp
    show ?thesis
    proof (cases "select_cols (h ! a) (map Str (rating pe))")
      case (Inl e)
      then have "average_ratings_st a pe mp h = (Inl e, h3)" unfolding unf using cc a3 by simp
      then show ?thesis using Inl Inr pu le3 k3 by (intro exI [of _ h3]) simp
    next
      case Inr2: (Inr sel)
      let ?s = "length h3"
      let ?h4 = "h3 @ [sel]"
      have unf4: "average_ratings_st a pe mp h =
          (case convert_ratings_st mp ?s ?h4 of
             (Inl e, h5) \<Rightarrow> (Inl e, h5)
           | (Inr ratings, h5) \<Rightarrow>
               (case average_loop_st ratings ?v (rating pe) h5 of
                  (Inl e, h6) \<Rightarrow> (Inl e, h6)
                | (Inr u, h6) \<Rightarrow> (Inr ?v, h6)))"
        unfolding unf using cc a3 Inr2 by (simp add: alloc_def)
      have s4: "?s < length ?h4" by simp
      have wf4: "wf_frame (?h4 ! ?s)" using select_cols_wf [OF Inr2] by simp
      note conv = convert_ratings_st_refines [OF s4 wf4, of mp]
      obtain res5 h5 where r5: "convert_ratings_st mp ?s ?h4 = (res5, h5)"
        by (cases "convert_ratings_st mp ?s ?h4")
      from convert_ratings_st_others [OF r5] have
        l5: "length h5 = Suc (length ?h4)" and o5: "\<forall>x<length ?h4. h5 ! x = ?h4 ! x" by auto
      have k5: "\<forall>x<length h. h5 ! x = h ! x" using o5 k3 le3 by (simp add: nth_append)
      have le5: "length h \<le> length h5" using l5 le3 by simp
      show ?thesis
      proof (cases "convert_ratings mp sel")
        case (Inl e)
        with conv r5 have "res5 = Inl e" by simp
        then have "average_ratings_st a pe mp h = (Inl e, h5)" unfolding unf4 r5 by simp
        then show ?thesis using Inl Inr Inr2 pu le5 k5 by (intro exI [of _ h5]) simp
      next
        case Inr3: (Inr ratings)
        with conv r5 have res5: "res5 = Inr (length ?h4)" and h5: "h5 = ?h4 @ [ratings]" by simp_all
        let ?r = "length ?h4"
        have unf5: "average_ratings_st a pe mp h =
            (case average_loop_st ?r ?v (rating pe) h5 of
               (Inl e, h6) \<Rightarrow> (Inl e, h6)
             | (Inr u, h6) \<Rightarrow> (Inr ?v, h6))"
          unfolding unf4 r5 res5 by simp
        have p5: "?r < length h5" "?v < length h5" "?r \<noteq> ?v" using l5 l3 by simp_all
        have h5r: "h5 ! ?r = ratings" unfolding h5 using nth_append_length [of ?h4 ratings "[]"] by simp
        have h5v: "h5 ! ?v = avgs1" using o5 v3 l3 by (simp add: nth_append)
        from average_loop_st_refines [OF p5, of "rating pe"] obtain h6 where
          l6: "length h6 = length h5" and o6: "\<forall>x. x \<noteq> ?v \<longrightarrow> h6 ! x = h5 ! x"
          and c6: "case average_loop ratings (rating pe) avgs1 of
                     Inl e \<Rightarrow> average_loop_st ?r ?v (rating pe) h5 = (Inl e, h6)
                   | Inr avgs \<Rightarrow> average_loop_st ?r ?v (rating pe) h5 = (Inr (), h6) \<and> h6 ! ?v = avgs"
          unfolding h5r h5v by blast
        have k6: "\<forall>x<length h. h6 ! x = h ! x" using o6 k5 by simp
        have le6: "length h \<le> length h6" using l6 le5 by simp
        have v6: "?v < length h6" using l6 l5 le3 by simp
        show ?thesis
        proof (cases "average_loop ratings (rating pe) avgs1")
          case (Inl e)
          with c6 have "average_ratings_st a pe mp h = (Inl e, h6)" unfolding unf5 by simp
          then show ?thesis using Inl Inr Inr2 Inr3 pu le6 k6 by (intro exI [of _ h6]) simp
        next
          case Inr4: (Inr avgs)
          with c6 have "average_ratings_st a pe mp h = (Inr ?v, h6)" "h6 ! ?v = avgs"
            unfolding unf5 by simp_all
          then show ?thesis using Inr Inr2 Inr3 Inr4 pu le6 k6 v6 by (intro exI [of _ h6]) simp
        qed
      qed
    qed
  qed
qed

lemma average_ratings_st_result:
  assumes "a < length h" and "average_ratings_st a pe mp h = (res, h')"
  shows "length h \<le> length h'" and "\<forall>x<length h. h' ! x = h ! x"
    and "case average_ratings (h ! a) pe mp of
           Inl e \<Rightarrow> res = Inl e
         | Inr avgs \<Rightarrow> (\<exists>v. res = Inr v \<and> v < length h' \<and> h' ! v = avgs)"
proof -
  from average_ratings_st_refines [OF assms(1), of pe mp] obtain k where
    k: "length h \<le> length k" "\<forall>x<length h. k ! x = h ! x"
       "case average_ratings (h ! a) pe mp of
          Inl e \<Rightarrow> average_ratings_st a pe mp h = (Inl e, k)
        | Inr avgs \<Rightarrow> (\<exists>v. average_ratings_st a pe mp h = (Inr v, k) \<and> v < length k \<and> k ! v = avgs)"
    by blast
  have eq: "h' = k" using k(3) assms(2) by (cases "average_ratings (h ! a) pe mp") auto
  show "length h \<le> length h'" using k(1) eq by simp
  show "\<forall>x<length h. h' ! x = h ! x" using k(2) eq by simp
  show "case average_ratings (h ! a) pe mp of
           Inl e \<Rightarrow> res = Inl e
         | Inr avgs \<Rightarrow> (\<exists>v. res = Inr v \<and> v < length h' \<and> h' ! v = avgs)"
    using k(3) assms(2) eq by (cases "average_ratings (h ! a) pe mp") auto
qed

text \<open>
  C8. \<open>average_ratings\<close> is a pure function of its bucket. Run on a store in which the
  bucket is an object, it changes no object that was there before the call (the bucket
  included): it only adds objects. What it returns, the exception or the table at the
  position returned, is what the function on values gives for the contents of the
  bucket; so a second call on the same bucket, in the store the first call left, returns
  the same exception or a table equal to the first, which the second call leaves
  unchanged as well.
\<close>

theorem average_ratings_pure:
  assumes "eval_df < length h"
    and "average_ratings_st eval_df pe map_points h = (res, h')"
  shows "length h \<le> length h' \<and> (\<forall>x<length h. h' ! x = h ! x) \<and> h' ! eval_df = h ! eval_df
     \<and> (case res of
           Inl e \<Rightarrow> average_ratings (h ! eval_df) pe map_points = Inl e
         | Inr v \<Rightarrow> average_ratings (h ! eval_df) pe map_points = Inr (h' ! v))
     \<and> (\<exists>res2 h2. average_ratings_st eval_df pe map_points h' = (res2, h2)
           \<and> h2 ! eval_df = h ! eval_df
           \<and> (case res of
                 Inl e \<Rightarrow> res2 = Inl e
               | Inr v \<Rightarrow> (\<exists>v2. res2 = Inr v2 \<and> h2 ! v2 = h' ! v \<and> h2 ! v = h' ! v)))"
proof -
  note first = average_ratings_st_result [OF assms]
  have len: "length h \<le> length h'" and keep: "\<forall>x<length h. h' ! x = h ! x"
    and out: "case average_ratings (h ! eval_df) pe map_points of
                Inl e \<Rightarrow> res = Inl e
              | Inr avgs \<Rightarrow> (\<exists>v. res = Inr v \<and> v < length h' \<and> h' ! v = avgs)"
    using first by blast+
  have same: "h' ! eval_df = h ! eval_df" using keep assms(1) by simp
  have a': "eval_df < length h'" using assms(1) len by simp
  obtain res2 h2 where r2: "average_ratings_st eval_df pe map_points h' = (res2, h2)"
    by (cases "average_ratings_st eval_df pe map_points h'")
  note second = average_ratings_st_result [OF a' r2]
  have len2: "length h' \<le> length h2" and keep2: "\<forall>x<length h'. h2 ! x = h' ! x"
    and out2: "case average_ratings (h' ! eval_df) pe map_points of
                Inl e \<Rightarrow> res2 = Inl e
              | Inr avgs \<Rightarrow> (\<exists>v. res2 = Inr v \<and> v < length h2 \<and> h2 ! v = avgs)"
    using second by blast+
  have same2: "h2 ! eval_df = h ! eval_df" using keep2 a' same by simp
  show ?thesis
  proof (cases "average_ratings (h ! eval_df) pe map_points")
    case (Inl e)
    with out out2 same have "res = Inl e" "res2 = Inl e" by simp_all
    then show ?thesis using len keep same Inl r2 same2 by simp
  next
    case (Inr avgs)
    with out obtain v where v: "res = Inr v" "v < length h'" "h' ! v = avgs" by auto
    from Inr out2 same obtain v2 where v2: "res2 = Inr v2" "h2 ! v2 = avgs" by auto
    have "h2 ! v = h' ! v" using keep2 v(2) by simp
    then show ?thesis using len keep same Inr r2 same2 v v2 by simp
  qed
qed

theorem average_ratings_pure_witness:
  "\<exists>v h'. average_ratings_st 0 example_pe_cols example_lexicon [example_bucket_single] = (Inr v, h')
     \<and> h' ! 0 = example_bucket_single
     \<and> h' ! v = \<lparr>columns = map Str (all_cols example_pe_cols),
                  rows = [[Num 1, Str (py ''ok''), Num 4, NaN]]\<rparr>
     \<and> (\<exists>v2 h2. average_ratings_st 0 example_pe_cols example_lexicon h' = (Inr v2, h2)
           \<and> h2 ! 0 = example_bucket_single \<and> h2 ! v2 = h' ! v)"
proof -
  let ?h = "[example_bucket_single]"
  obtain res h' where r: "average_ratings_st 0 example_pe_cols example_lexicon ?h = (res, h')"
    by (cases "average_ratings_st 0 example_pe_cols example_lexicon ?h")
  have l: "0 < length ?h" by simp
  have val: "average_ratings example_bucket_single example_pe_cols example_lexicon =
      Inr \<lparr>columns = map Str (all_cols example_pe_cols),
           rows = [[Num 1, Str (py ''ok''), Num 4, NaN]]\<rparr>"
    by (simp add: average_ratings_def example_bucket_single_def example_columns_def
        example_pe_cols_def example_lexicon_def loc_set0_def get_col_def NA_LIST_def
        set_col_const_def select_cols_def convert_ratings_def mean_def round2_def
        round_half_even_def loc_get0_def Let_def)
  from average_ratings_pure [OF l r]
  have same: "h' ! 0 = ?h ! 0"
    and out: "case res of
           Inl e \<Rightarrow> average_ratings (?h ! 0) example_pe_cols example_lexicon = Inl e
         | Inr v \<Rightarrow> average_ratings (?h ! 0) example_pe_cols example_lexicon = Inr (h' ! v)"
    and again: "\<exists>res2 h2. average_ratings_st 0 example_pe_cols example_lexicon h' = (res2, h2)
           \<and> h2 ! 0 = ?h ! 0
           \<and> (case res of
                 Inl e \<Rightarrow> res2 = Inl e
               | Inr v \<Rightarrow> (\<exists>v2. res2 = Inr v2 \<and> h2 ! v2 = h' ! v \<and> h2 ! v = h' ! v))"
    by blast+
  from out val obtain v where v: "res = Inr v"
    "h' ! v = \<lparr>columns = map Str (all_cols example_pe_cols),
                rows = [[Num 1, Str (py ''ok''), Num 4, NaN]]\<rparr>"
    by (cases res) auto
  from again v(1) obtain v2 h2 where
    "average_ratings_st 0 example_pe_cols example_lexicon h' = (Inr v2, h2)"
    "h2 ! 0 = ?h ! 0" "h2 ! v2 = h' ! v"
    by auto
  then show ?thesis using r v same by auto
qed

end
